theory Spec2Isabelle
  imports Main "HOL-Library.AList"
begin

section \<open>Data model (engine/models.py, engine/internal.py)\<close>

text \<open>
  Seat ids and player indices are natural numbers, chip amounts are Python's unbounded
  integers. Cards are the two-character strings of utils/cards.py.
\<close>

type_synonym card = string

datatype PlayerType = HUMAN | BOT

datatype SessionOutcome = RUNNING | HUMAN_WON | HUMAN_LOST

datatype Street = PREFLOP | FLOP | TURN | RIVER | SHOWDOWN | HAND_ENDED

datatype ClientActionType = FOLD | CHECK | CALL | BET | RAISE | ALL_IN

datatype EventType =
    HAND_START | POST_BLIND | DEAL_CARD | ACTION | STREET_END_COLLECT | BOARD_REVEAL
  | SHOWDOWN_REVEAL | POT_AWARD | STACK_UPDATE | HAND_END | SESSION_END

text \<open>
  Every exception the engine can raise. \<open>EngineRejectedAction\<close> carries its stable code;
  the formatted message is not modelled.
\<close>

datatype error =
    EngineRejectedAction string
  | RuntimeError
  | KeyError
  | IndexError
  | AssertionError
  | ValueError

text \<open>
  The outcome of a procedure that mutates the table and the hand: it returns a value and the
  mutated state, or raises \<open>EngineRejectedAction\<close> with the state as it is at the raise,
  or raises any other exception. The latter are the engine-integrity errors: the state they
  leave behind is not modelled.
\<close>

datatype ('r, 's) result = Returned 'r 's | Raised string 's | Fatal error

record TableConfig =
  num_seats :: nat
  small_blind :: int
  big_blind :: int
  starting_stack :: int
  ante :: int
  no_rake :: bool
  seed :: "int option"

text \<open>One entry of \<open>TableRuntime.seats\<close>: the dict stored per seat by \<open>create_table\<close>.\<close>

record seat_row =
  seat_id :: nat
  player_type :: PlayerType
  display_name :: string
  stack :: int

record PotAward =
  pot_id :: nat
  amount :: int
  winners :: "(nat \<times> int) list"
  eligible_seats :: "nat list"
  odd_chip_award :: "(nat \<times> int) option"

text \<open>The payload dict of each event kind, in the order \<open>_emit_event\<close> is called with them.\<close>

datatype payload =
    HandStartPayload nat nat nat "int list"
  | PostBlindPayload nat int
  | DealCardPayload nat nat "card option"
  | ActionPayload nat ClientActionType "int option" "int option"
  | StreetEndCollectPayload "int list"
  | BoardRevealPayload Street "card list"
  | ShowdownRevealPayload nat "card list"
  | PotAwardPayload PotAward
  | StackUpdatePayload nat int
  | HandEndPayload string "int list"
  | SessionEndPayload SessionOutcome

text \<open>
  \<open>EventEnvelope\<close>. The wall-clock field \<open>ts\<close> is left out: it is read from the system clock
  and no property below depends on it.
\<close>

record EventEnvelope =
  env_table_id :: string
  env_hand_id :: nat
  env_event_seq :: nat
  env_event_type :: EventType
  env_payload :: payload

record ActionHistoryRow =
  step_index :: nat
  row_action_seq :: nat
  row_seat_id :: nat
  row_action :: ClientActionType
  row_amount_to :: "int option"
  row_street :: Street

record AllowedActions =
  can_fold :: bool
  can_check :: bool
  can_call :: bool
  can_bet :: bool
  can_raise :: bool
  can_all_in :: bool
  call_amount :: int
  min_bet_to :: "int option"
  min_raise_to :: "int option"
  max_raise_to :: "int option"
  pot_size :: int
  effective_stack :: int

record ShowdownRow =
  sd_seat_id :: nat
  sd_player_name :: string
  sd_hole_cards :: "card list"
  best_hand_name :: string
  hand_rank_value :: int
  sd_amount_won :: int

record ShowdownPayload =
  sd_winners :: "ShowdownRow list"
  sd_losers :: "ShowdownRow list"

record SeatState =
  ss_seat_id :: nat
  ss_player_type :: PlayerType
  ss_display_name :: string
  ss_stack :: int
  has_folded :: bool
  is_all_in :: bool
  is_busted :: bool
  role_badge :: "string option"
  is_dealer_button :: bool
  ss_cards :: "card option list"

record PotView =
  pv_pot_id :: nat
  pv_amount :: int
  pv_eligible_seats :: "nat list"
  pv_label :: string

record ActionLogEntry =
  ale_event_seq :: nat
  ale_seat_id :: nat
  ale_action :: ClientActionType
  ale_amount_to :: "int option"
  ale_street :: Street

text \<open>The dict built by \<open>_invariant_payload\<close>.\<close>

record InvariantPayload =
  chip_conservation :: bool
  no_negative_stacks :: bool
  hand_status_valid :: bool
  in_front :: int

text \<open>
  \<open>ViewState\<close>. The two digests \<open>state_hash\<close> and \<open>invariant_hash\<close> are SHA-256 values of
  data the view holds; the view carries the invariant payload itself in place of its digest,
  and \<open>state_hash\<close> is left out.
\<close>

record ViewState =
  v_table_id :: string
  v_hand_id :: "nat option"
  v_session_outcome :: SessionOutcome
  v_seats :: "SeatState list"
  v_board_cards :: "card list"
  v_pots :: "PotView list"
  v_chips_in_front :: "int list"
  v_action_on_seat :: "nat option"
  v_action_log :: "ActionLogEntry list"
  v_server_action_seq :: nat
  v_allowed_actions :: AllowedActions
  v_showdown_payload :: "ShowdownPayload option"
  v_invariant :: InvariantPayload

record SubmitActionResponse =
  accepted :: bool
  resp_error :: "string option"
  resp_view_state :: ViewState
  event_queue_delta :: "EventEnvelope list"
  resp_server_action_seq :: nat

record StartHandResponse =
  start_view_state :: ViewState
  event_queue :: "EventEnvelope list"

record HandHistory =
  hh_hand_id :: nat
  hh_table_id :: string
  hh_config :: TableConfig
  initial_stacks_by_seat :: "int list"
  final_stacks_by_seat :: "int list"
  hh_active_seats :: "nat list"
  hh_player_index_to_seat :: "nat list"
  hh_dealer_button_seat :: nat
  hh_sb_seat :: nat
  hh_bb_seat :: nat
  hh_deal_seed :: int
  hh_bot_decision_seed :: int
  hh_bot_delay_seed :: int
  hole_cards_by_seat :: "card option list list"
  hh_board_cards :: "card list"
  actions :: "ActionHistoryRow list"
  pot_breakdown :: "PotAward list"
  showdown :: "ShowdownPayload option"
  hh_hand_end_reason :: string
  event_count :: nat
  events :: "EventEnvelope list"

text \<open>One entry of \<open>HandRuntime.showdown_rows_by_seat\<close>.\<close>

record ShowdownSeatRow =
  hole_cards :: "card option list"
  amount_won :: int

text \<open>
  \<open>HandRuntime\<close>, over the type \<open>'p\<close> of the rules provider's hand state. The dicts keyed by
  \<open>range(num_seats)\<close> or by \<open>range(len(active_seats))\<close> are lists indexed by the key (a key
  out of range is the \<open>KeyError\<close> of the source), the others are maps.
\<close>

record 'p HandRuntime =
  hand_id :: nat
  h_dealer_button_seat :: nat
  sb_seat :: nat
  bb_seat :: nat
  active_seats :: "nat list"
  player_index_to_seat :: "nat list"
  seat_to_player_index :: "nat \<rightharpoonup> nat"
  pokerkit_state :: 'p
  deck :: "card list"
  deck_index :: nat
  deal_seed :: int
  bot_decision_seed :: int
  bot_delay_seed :: int
  action_seq :: nat
  next_step_index :: nat
  action_log_internal :: "ActionHistoryRow list"
  event_log :: "EventEnvelope list"
  committed_this_street_by_seat :: "int list"
  total_committed_by_seat :: "int list"
  hand_start_stacks_by_seat :: "int list"
  idempotency_cache :: "string \<rightharpoonup> SubmitActionResponse"
  showdown_revealed_seats :: "nat set"
  showdown_rows_by_seat :: "nat \<rightharpoonup> ShowdownSeatRow"
  pot_awards :: "PotAward list"
  folded_seats :: "nat set"
  all_in_seats :: "nat set"
  ended :: bool
  hand_end_reason :: string
  h_event_seq :: nat

text \<open>
  \<open>TableRuntime\<close>. \<open>seats\<close> is the dict keyed by \<open>range(num_seats)\<close>, as a list indexed by
  seat id. \<open>emitted\<close> is the stream of envelopes that \<open>_emit_event\<close> offers to the table's
  subscribers (\<open>self._subscriptions[table_id]\<close>), in call order; the bounded queues and the
  lock are not modelled.
\<close>

record 'p TableRuntime =
  table_id :: string
  config :: TableConfig
  seats :: "seat_row list"
  dealer_button_seat :: int
  next_hand_id :: nat
  table_seed :: int
  event_seq :: nat
  outcome :: SessionOutcome
  current_hand :: "'p HandRuntime option"
  completed_hands :: "nat \<rightharpoonup> HandHistory"
  emitted :: "EventEnvelope list"

section \<open>The rules primitive provider (pokerkit) and the other external functions\<close>

text \<open>
  The engine calls pokerkit's \<open>State\<close> through the predicates \<open>can_*\<close>, the operations they
  guard and a few attributes. The provider is a parameter of every engine function: \<open>can\<close>
  answers the predicate of a capability, \<open>perform\<close> runs an operation and returns the
  operation object with the successor state.
\<close>

datatype capability =
    CanPostAnte | CanPostBlindOrStraddle | CanDealHole | CanCollectBets
  | CanSelectRunoutCount | CanBurnCard | CanDealBoard | CanShowOrMuckHoleCards
  | CanKillHand | CanPushChips | CanPullChips | CanNoOperate
  | CanFold | CanCheckOrCall | CanCompleteBetOrRaiseTo

datatype operation =
    PostAnte | PostBlindOrStraddle | DealHole card | CollectBets
  | SelectRunoutCount nat | BurnCard card | DealBoard "card list" | ShowOrMuckHoleCards bool
  | KillHand | PushChips | PullChips | NoOperate
  | DoFold | CheckOrCall | CompleteBetOrRaiseTo int

text \<open>The fields the engine reads from the object an operation returns.\<close>

record OpInfo =
  op_player_index :: nat
  op_amount :: int
  op_hole_cards :: "card list"
  op_pot_index :: nat
  op_amounts :: "int list"

record Pot =
  pot_amount :: int
  pot_player_indices :: "nat list"

text \<open>
  \<open>build_shuffled_deck\<close> (a Mersenne-Twister shuffle), \<open>derive_seed\<close> (SHA-256) and the bot
  policy (which draws from \<open>random.Random\<close> of a derived seed) are parameters as well.
\<close>

record BotDecision =
  bd_action :: ClientActionType
  bd_amount_to :: "int option"
  think_delay_ms :: int

record 'p provider =
  create_state :: "int \<Rightarrow> int \<Rightarrow> int \<Rightarrow> int list \<Rightarrow> 'p"
  status :: "'p \<Rightarrow> bool"
  actor_index :: "'p \<Rightarrow> nat option"
  stacks :: "'p \<Rightarrow> int list"
  bets :: "'p \<Rightarrow> int list"
  pots :: "'p \<Rightarrow> Pot list"
  raw_pots :: "'p \<Rightarrow> Pot list"
  total_pot_amount :: "'p \<Rightarrow> int"
  board_cards :: "'p \<Rightarrow> card list"
  board_dealing_count :: "'p \<Rightarrow> nat"
  dealable_count :: "'p \<Rightarrow> nat"
  checking_or_calling_amount :: "'p \<Rightarrow> int option"
  min_completion_betting_or_raising_to_amount :: "'p \<Rightarrow> int option"
  max_completion_betting_or_raising_to_amount :: "'p \<Rightarrow> int option"
  get_hand :: "'p \<Rightarrow> nat \<Rightarrow> (string \<times> int) option"
  can :: "'p \<Rightarrow> capability \<Rightarrow> bool"
  perform :: "'p \<Rightarrow> operation \<Rightarrow> OpInfo \<times> 'p"
  build_shuffled_deck :: "int \<Rightarrow> card list"
  derive_seed :: "int \<Rightarrow> nat \<Rightarrow> string \<Rightarrow> int"
  choose_action :: "AllowedActions \<Rightarrow> int \<Rightarrow> int \<Rightarrow> BotDecision"

section \<open>Engine helpers (engine/service.py)\<close>

fun string_of_nat :: "nat \<Rightarrow> string" where
  "string_of_nat n =
     (if n < 10 then [''0123456789'' ! n]
      else string_of_nat (n div 10) @ [''0123456789'' ! (n mod 10)])"

text \<open>
  \<open>create_table\<close>. The table id (a fresh uuid) and the seed chosen when the configuration
  has none (\<open>random.randrange\<close>) are arguments.
\<close>

definition create_table :: "string \<Rightarrow> int \<Rightarrow> TableConfig \<Rightarrow> 'p TableRuntime" where
  "create_table tid random_seed cfg =
     \<lparr>table_id = tid,
      config = cfg,
      seats = map (\<lambda>i. \<lparr>seat_id = i,
                          player_type = (if i = 0 then HUMAN else BOT),
                          display_name = (if i = 0 then ''You'' else ''Bot '' @ string_of_nat i),
                          stack = starting_stack cfg\<rparr>) [0..<num_seats cfg],
      dealer_button_seat = int (num_seats cfg) - 1,
      next_hand_id = 1,
      table_seed = (case seed cfg of Some s \<Rightarrow> s | None \<Rightarrow> random_seed),
      event_seq = 0,
      outcome = RUNNING,
      current_hand = None,
      completed_hands = Map.empty,
      emitted = []\<rparr>"

text \<open>\<open>_active_seats\<close>: the seats with chips, in seat order.\<close>

definition active_seats_of_table :: "'p TableRuntime \<Rightarrow> nat list" where
  "active_seats_of_table t = filter (\<lambda>i. stack (seats t ! i) > 0) [0..<length (seats t)]"

text \<open>\<open>_next_active_after\<close>: at most \<open>total_seats\<close> steps clockwise, then \<open>RuntimeError\<close>.\<close>

fun next_active_loop :: "nat \<Rightarrow> int \<Rightarrow> nat list \<Rightarrow> nat \<Rightarrow> error + nat" where
  "next_active_loop 0 cursor active total_seats = Inl RuntimeError"
| "next_active_loop (Suc k) cursor active total_seats =
     (let c = (cursor + 1) mod int total_seats
      in if nat c \<in> set active then Inr (nat c)
         else next_active_loop k c active total_seats)"

definition next_active_after :: "int \<Rightarrow> nat list \<Rightarrow> nat \<Rightarrow> error + nat" where
  "next_active_after s active total_seats = next_active_loop total_seats s active total_seats"

text \<open>\<open>_emit_event\<close>: the table's counter is advanced and numbers the envelope.\<close>

definition emit_event ::
  "'p TableRuntime \<Rightarrow> 'p HandRuntime \<Rightarrow> EventType \<Rightarrow> payload
     \<Rightarrow> 'p TableRuntime \<times> 'p HandRuntime" where
  "emit_event t h et pl =
     (let n = event_seq t + 1;
          envelope = \<lparr>env_table_id = table_id t, env_hand_id = hand_id h, env_event_seq = n,
                      env_event_type = et, env_payload = pl\<rparr>
      in (t\<lparr>event_seq := n, emitted := emitted t @ [envelope]\<rparr>,
          h\<lparr>h_event_seq := n, event_log := event_log h @ [envelope]\<rparr>))"

text \<open>
  \<open>_sync_table_stacks_from_state\<close>: for each player index and its seat, in index order,
  the table's stack becomes the provider's stack.
\<close>

fun sync_stacks :: "seat_row list \<Rightarrow> int list \<Rightarrow> nat \<Rightarrow> nat list \<Rightarrow> error + seat_row list" where
  "sync_stacks ss xs i [] = Inr ss"
| "sync_stacks ss xs i (s # rest) =
     (if length xs \<le> i then Inl IndexError
      else if length ss \<le> s then Inl KeyError
      else sync_stacks (ss[s := (ss ! s)\<lparr>stack := xs ! i\<rparr>]) xs (Suc i) rest)"

definition sync_table_stacks_from_state ::
  "'p provider \<Rightarrow> 'p TableRuntime \<Rightarrow> 'p \<Rightarrow> 'p HandRuntime \<Rightarrow> error + 'p TableRuntime" where
  "sync_table_stacks_from_state P t st h =
     (case sync_stacks (seats t) (stacks P st) 0 (player_index_to_seat h) of
        Inl e \<Rightarrow> Inl e
      | Inr ss \<Rightarrow> Inr (t\<lparr>seats := ss\<rparr>))"

text \<open>\<open>hand.player_index_to_seat[i]\<close>.\<close>

definition seat_of_player :: "'p HandRuntime \<Rightarrow> nat \<Rightarrow> error + nat" where
  "seat_of_player h i =
     (if i < length (player_index_to_seat h) then Inr (player_index_to_seat h ! i)
      else Inl KeyError)"

definition actor_seat :: "'p provider \<Rightarrow> 'p HandRuntime \<Rightarrow> error + nat option" where
  "actor_seat P h =
     (case actor_index P (pokerkit_state h) of
        None \<Rightarrow> Inr None
      | Some a \<Rightarrow> (case seat_of_player h a of Inl e \<Rightarrow> Inl e | Inr s \<Rightarrow> Inr (Some s)))"

definition street_from_state :: "'p provider \<Rightarrow> 'p \<Rightarrow> Street" where
  "street_from_state P st =
     (let board_count = length (board_cards P st)
      in if board_count = 0 then PREFLOP
         else if board_count = 3 then FLOP
         else if board_count = 4 then TURN
         else if board_count = 5 \<and> status P st then RIVER
         else SHOWDOWN)"

definition street_for_board_count :: "nat \<Rightarrow> Street" where
  "street_for_board_count n =
     (if n = 3 then FLOP else if n = 4 then TURN else if n = 5 then RIVER else PREFLOP)"

definition normalize_hole_cards :: "card option list \<Rightarrow> card option list" where
  "normalize_hole_cards cards = take 2 cards @ replicate (2 - length (take 2 cards)) None"

definition refresh_outcome :: "'p TableRuntime \<Rightarrow> error + 'p TableRuntime" where
  "refresh_outcome t =
     (case seats t of
        [] \<Rightarrow> Inl KeyError
      | human # bots \<Rightarrow>
          Inr (t\<lparr>outcome :=
                 (if stack human \<le> 0 then HUMAN_LOST
                  else if list_all (\<lambda>s. stack s \<le> 0) bots then HUMAN_WON
                  else RUNNING)\<rparr>))"

definition invariant_payload ::
  "'p provider \<Rightarrow> 'p TableRuntime \<Rightarrow> 'p HandRuntime option \<Rightarrow> InvariantPayload" where
  "invariant_payload P t hand =
     (let seat_chips = sum_list (map stack (seats t));
          front = (case hand of None \<Rightarrow> 0 | Some h \<Rightarrow> sum_list (bets P (pokerkit_state h)));
          total_chips =
            (case hand of
               None \<Rightarrow> seat_chips
             | Some h \<Rightarrow> seat_chips + (front + sum_list (map pot_amount (pots P (pokerkit_state h)))))
      in \<lparr>chip_conservation = (total_chips = starting_stack (config t) * int (num_seats (config t))),
          no_negative_stacks = list_all (\<lambda>s. stack s \<ge> 0) (seats t),
          hand_status_valid = True,
          in_front = front\<rparr>)"

text \<open>
  The two ledger updates \<open>committed_this_street_by_seat[seat] += x\<close> and
  \<open>total_committed_by_seat[seat] += x\<close>.
\<close>

definition commit_chips :: "'p HandRuntime \<Rightarrow> nat \<Rightarrow> int \<Rightarrow> error + 'p HandRuntime" where
  "commit_chips h s x =
     (if length (committed_this_street_by_seat h) \<le> s then Inl KeyError
      else if length (total_committed_by_seat h) \<le> s then Inl KeyError
      else Inr (h\<lparr>committed_this_street_by_seat :=
                    (committed_this_street_by_seat h)[s := committed_this_street_by_seat h ! s + x],
                  total_committed_by_seat :=
                    (total_committed_by_seat h)[s := total_committed_by_seat h ! s + x]\<rparr>))"

text \<open>\<open>HandRuntime.next_card\<close>, and the list comprehension that draws \<open>count\<close> cards.\<close>

definition next_card :: "'p HandRuntime \<Rightarrow> error + card \<times> 'p HandRuntime" where
  "next_card h =
     (if deck_index h < length (deck h)
      then Inr (deck h ! deck_index h, h\<lparr>deck_index := deck_index h + 1\<rparr>)
      else Inl IndexError)"

definition next_cards :: "'p HandRuntime \<Rightarrow> nat \<Rightarrow> error + card list \<times> 'p HandRuntime" where
  "next_cards h n =
     (if deck_index h + n \<le> length (deck h)
      then Inr (take n (drop (deck_index h) (deck h)), h\<lparr>deck_index := deck_index h + n\<rparr>)
      else Inl IndexError)"

section \<open>Forced sub-steps of the hand lifecycle\<close>

definition post_single_blind_locked ::
  "'p provider \<Rightarrow> 'p TableRuntime \<Rightarrow> 'p HandRuntime
     \<Rightarrow> error + 'p TableRuntime \<times> 'p HandRuntime" where
  "post_single_blind_locked P t h =
     (let (op, st) = perform P (pokerkit_state h) PostBlindOrStraddle;
          h1 = h\<lparr>pokerkit_state := st\<rparr>
      in case seat_of_player h1 (op_player_index op) of
           Inl e \<Rightarrow> Inl e
         | Inr s \<Rightarrow>
             (case commit_chips h1 s (op_amount op) of
                Inl e \<Rightarrow> Inl e
              | Inr h2 \<Rightarrow>
                  Inr (emit_event t h2 POST_BLIND (PostBlindPayload s (op_amount op)))))"

text \<open>
  \<open>_post_blinds_locked\<close>: the source loops while the provider offers a blind, with no
  bound of its own, so the model is a partial function.
\<close>

partial_function (option) post_blinds_locked ::
  "'p provider \<Rightarrow> 'p TableRuntime \<Rightarrow> 'p HandRuntime
     \<Rightarrow> (error + 'p TableRuntime \<times> 'p HandRuntime) option" where
  "post_blinds_locked Pv t h =
     (if can Pv (pokerkit_state h) CanPostBlindOrStraddle
      then (case post_single_blind_locked Pv t h of
              Inl e \<Rightarrow> Some (Inl e)
            | Inr (t1, h1) \<Rightarrow> post_blinds_locked Pv t1 h1)
      else Some (Inr (t, h)))"

definition deal_single_hole_card_locked ::
  "'p provider \<Rightarrow> 'p TableRuntime \<Rightarrow> 'p HandRuntime
     \<Rightarrow> error + 'p TableRuntime \<times> 'p HandRuntime" where
  "deal_single_hole_card_locked P t h =
     (case next_card h of
        Inl e \<Rightarrow> Inl e
      | Inr (c, h1) \<Rightarrow>
          (let (op, st) = perform P (pokerkit_state h1) (DealHole c);
               h2 = h1\<lparr>pokerkit_state := st\<rparr>
           in case seat_of_player h2 (op_player_index op) of
                Inl e \<Rightarrow> Inl e
              | Inr s \<Rightarrow>
                  (let seat_row = (case showdown_rows_by_seat h2 s of
                                     None \<Rightarrow> \<lparr>hole_cards = [], amount_won = 0\<rparr>
                                   | Some r \<Rightarrow> r);
                       cards = hole_cards seat_row @ [Some c];
                       h3 = h2\<lparr>showdown_rows_by_seat :=
                                 (showdown_rows_by_seat h2)(s \<mapsto> seat_row\<lparr>hole_cards := cards\<rparr>)\<rparr>
                   in Inr (emit_event t h3 DEAL_CARD
                             (DealCardPayload s (length cards - 1)
                                (if s = 0 then Some c else None))))))"

text \<open>
  \<open>_deal_hole_cards_locked\<close>: loops while the provider asks for a hole card; every turn
  draws a card, so the deck's \<open>IndexError\<close> ends the loop at the latest.
\<close>

partial_function (option) deal_hole_cards_locked ::
  "'p provider \<Rightarrow> 'p TableRuntime \<Rightarrow> 'p HandRuntime
     \<Rightarrow> (error + 'p TableRuntime \<times> 'p HandRuntime) option" where
  "deal_hole_cards_locked Pv t h =
     (if can Pv (pokerkit_state h) CanDealHole
      then (case deal_single_hole_card_locked Pv t h of
              Inl e \<Rightarrow> Some (Inl e)
            | Inr (t1, h1) \<Rightarrow> deal_hole_cards_locked Pv t1 h1)
      else Some (Inr (t, h)))"

text \<open>The branches of the loop of \<open>_advance_locked\<close>, one definition each.\<close>

definition advance_post_ante :: "'p provider \<Rightarrow> 'p HandRuntime \<Rightarrow> error + 'p HandRuntime" where
  "advance_post_ante P h =
     (let (op, st) = perform P (pokerkit_state h) PostAnte;
          h1 = h\<lparr>pokerkit_state := st\<rparr>
      in if op_player_index op < length (player_index_to_seat h1)
         then commit_chips h1 (player_index_to_seat h1 ! op_player_index op) (op_amount op)
         else Inr h1)"

definition advance_collect_bets ::
  "'p provider \<Rightarrow> 'p TableRuntime \<Rightarrow> 'p HandRuntime \<Rightarrow> 'p TableRuntime \<times> 'p HandRuntime" where
  "advance_collect_bets P t h =
     (let collected = bets P (pokerkit_state h);
          (op, st) = perform P (pokerkit_state h) CollectBets;
          h1 = h\<lparr>pokerkit_state := st,
                 committed_this_street_by_seat := map (\<lambda>x. 0) (committed_this_street_by_seat h)\<rparr>
      in emit_event t h1 STREET_END_COLLECT (StreetEndCollectPayload collected))"

definition advance_burn_card :: "'p provider \<Rightarrow> 'p HandRuntime \<Rightarrow> error + 'p HandRuntime" where
  "advance_burn_card P h =
     (case next_card h of
        Inl e \<Rightarrow> Inl e
      | Inr (c, h1) \<Rightarrow> Inr (h1\<lparr>pokerkit_state := snd (perform P (pokerkit_state h1) (BurnCard c))\<rparr>))"

definition advance_deal_board ::
  "'p provider \<Rightarrow> 'p TableRuntime \<Rightarrow> 'p HandRuntime
     \<Rightarrow> error + 'p TableRuntime \<times> 'p HandRuntime" where
  "advance_deal_board P t h =
     (case next_cards h (board_dealing_count P (pokerkit_state h)) of
        Inl e \<Rightarrow> Inl e
      | Inr (cards, h1) \<Rightarrow>
          (let st = snd (perform P (pokerkit_state h1) (DealBoard cards));
               h2 = h1\<lparr>pokerkit_state := st\<rparr>
           in Inr (emit_event t h2 BOARD_REVEAL
                     (BoardRevealPayload (street_for_board_count (length (board_cards P st)))
                        cards))))"

definition advance_show_or_muck ::
  "'p provider \<Rightarrow> 'p TableRuntime \<Rightarrow> 'p HandRuntime
     \<Rightarrow> error + 'p TableRuntime \<times> 'p HandRuntime" where
  "advance_show_or_muck P t h =
     (let (op, st) = perform P (pokerkit_state h) (ShowOrMuckHoleCards True);
          h1 = h\<lparr>pokerkit_state := st\<rparr>
      in case seat_of_player h1 (op_player_index op) of
           Inl e \<Rightarrow> Inl e
         | Inr s \<Rightarrow>
             (case showdown_rows_by_seat h1 s of
                None \<Rightarrow> Inl KeyError
              | Some r \<Rightarrow>
                  (let h2 = h1\<lparr>showdown_revealed_seats := insert s (showdown_revealed_seats h1),
                                showdown_rows_by_seat :=
                                  (showdown_rows_by_seat h1)
                                    (s \<mapsto> r\<lparr>hole_cards := map Some (op_hole_cards op)\<rparr>)\<rparr>
                   in Inr (emit_event t h2 SHOWDOWN_REVEAL
                             (ShowdownRevealPayload s (op_hole_cards op))))))"

text \<open>
  The loop over \<open>enumerate(op.amounts)\<close> of the push-chips branch: the winners with their
  amounts, in player-index order, and the rows of the winning seats credited.
\<close>

fun push_winners ::
  "nat list \<Rightarrow> nat \<Rightarrow> int list \<Rightarrow> (nat \<rightharpoonup> ShowdownSeatRow)
     \<Rightarrow> error + (nat \<times> int) list \<times> (nat \<rightharpoonup> ShowdownSeatRow)" where
  "push_winners p2s i [] rows = Inr ([], rows)"
| "push_winners p2s i (a # rest) rows =
     (if a \<le> 0 then push_winners p2s (Suc i) rest rows
      else if length p2s \<le> i then Inl KeyError
      else (let s = p2s ! i;
                r = (case rows s of
                       None \<Rightarrow> \<lparr>hole_cards = [None, None], amount_won = 0\<rparr>
                     | Some r \<Rightarrow> r)
            in case push_winners p2s (Suc i) rest (rows(s \<mapsto> r\<lparr>amount_won := amount_won r + a\<rparr>)) of
                 Inl e \<Rightarrow> Inl e
               | Inr (ws, rows1) \<Rightarrow> Inr ((s, a) # ws, rows1)))"

text \<open>The pot payload of lines 554 to 567, from the winners and the eligible seats.\<close>

definition pot_award_payload :: "nat \<Rightarrow> (nat \<times> int) list \<Rightarrow> nat list \<Rightarrow> PotAward" where
  "pot_award_payload pot_index ws eligible =
     (let winner_seats = map fst ws;
          total_awarded = sum_list (map snd ws);
          even_share = total_awarded div int (length winner_seats);
          remainder = total_awarded - even_share * int (length winner_seats)
      in \<lparr>pot_id = pot_index,
          amount = total_awarded,
          winners = ws,
          eligible_seats = eligible,
          odd_chip_award =
            (if length winner_seats > 1 \<and> remainder > 0
             then Some (hd winner_seats, remainder) else None)\<rparr>)"

fun seats_of_players :: "nat list \<Rightarrow> nat list \<Rightarrow> error + nat list" where
  "seats_of_players p2s [] = Inr []"
| "seats_of_players p2s (i # rest) =
     (if length p2s \<le> i then Inl KeyError
      else (case seats_of_players p2s rest of
              Inl e \<Rightarrow> Inl e
            | Inr ss \<Rightarrow> Inr (p2s ! i # ss)))"

definition advance_push_chips ::
  "'p provider \<Rightarrow> 'p TableRuntime \<Rightarrow> 'p HandRuntime
     \<Rightarrow> error + 'p TableRuntime \<times> 'p HandRuntime" where
  "advance_push_chips P t h =
     (let (op, st) = perform P (pokerkit_state h) PushChips;
          h1 = h\<lparr>pokerkit_state := st\<rparr>
      in if raw_pots P st \<noteq> [] \<and> length (raw_pots P st) \<le> op_pot_index op then Inl IndexError
         else
           (case push_winners (player_index_to_seat h1) 0 (op_amounts op)
                   (showdown_rows_by_seat h1) of
              Inl e \<Rightarrow> Inl e
            | Inr (ws, rows) \<Rightarrow>
                (case seats_of_players (player_index_to_seat h1)
                        (if raw_pots P st = [] then []
                         else pot_player_indices (raw_pots P st ! op_pot_index op)) of
                   Inl e \<Rightarrow> Inl e
                 | Inr eligible \<Rightarrow>
                     (let pot_payload = pot_award_payload (op_pot_index op) ws eligible;
                          h2 = h1\<lparr>showdown_rows_by_seat := rows,
                                   pot_awards := pot_awards h1 @ [pot_payload]\<rparr>
                      in Inr (emit_event t h2 POT_AWARD (PotAwardPayload pot_payload))))))"

definition advance_pull_chips ::
  "'p provider \<Rightarrow> 'p TableRuntime \<Rightarrow> 'p HandRuntime
     \<Rightarrow> error + 'p TableRuntime \<times> 'p HandRuntime" where
  "advance_pull_chips P t h =
     (let (op, st) = perform P (pokerkit_state h) PullChips;
          h1 = h\<lparr>pokerkit_state := st\<rparr>
      in case seat_of_player h1 (op_player_index op) of
           Inl e \<Rightarrow> Inl e
         | Inr s \<Rightarrow>
             (case sync_table_stacks_from_state P t st h1 of
                Inl e \<Rightarrow> Inl e
              | Inr t1 \<Rightarrow>
                  (if length (seats t1) \<le> s then Inl KeyError
                   else Inr (emit_event t1 h1 STACK_UPDATE
                               (StackUpdatePayload s (stack (seats t1 ! s)))))))"

section \<open>Completing a hand\<close>

definition player_name_of :: "nat \<Rightarrow> string" where
  "player_name_of s = (if s = 0 then ''You'' else ''Bot '' @ string_of_nat s)"

text \<open>The rows of \<open>_build_showdown_payload\<close>, over the revealed seats in ascending order.\<close>

fun showdown_rows :: "'p provider \<Rightarrow> 'p HandRuntime \<Rightarrow> 'p \<Rightarrow> nat list \<Rightarrow> error + ShowdownRow list" where
  "showdown_rows P h st [] = Inr []"
| "showdown_rows P h st (s # rest) =
     (case seat_to_player_index h s of
        None \<Rightarrow> Inl KeyError
      | Some i \<Rightarrow>
          (case showdown_rows P h st rest of
             Inl e \<Rightarrow> Inl e
           | Inr rows \<Rightarrow>
               (case get_hand P st i of
                  None \<Rightarrow> Inr rows
                | Some (label, rank) \<Rightarrow>
                    Inr (\<lparr>sd_seat_id = s,
                          sd_player_name = player_name_of s,
                          sd_hole_cards =
                            List.map_filter (\<lambda>c. c)
                              (normalize_hole_cards
                                 (case showdown_rows_by_seat h s of
                                    None \<Rightarrow> [] | Some r \<Rightarrow> hole_cards r)),
                          best_hand_name = label,
                          hand_rank_value = rank,
                          sd_amount_won =
                            (case showdown_rows_by_seat h s of
                               None \<Rightarrow> 0 | Some r \<Rightarrow> amount_won r)\<rparr> # rows))))"

definition build_showdown_payload ::
  "'p provider \<Rightarrow> 'p HandRuntime \<Rightarrow> 'p \<Rightarrow> error + ShowdownPayload option" where
  "build_showdown_payload P h st =
     (if showdown_revealed_seats h = {} then Inr None
      else (case showdown_rows P h st (sorted_list_of_set (showdown_revealed_seats h)) of
              Inl e \<Rightarrow> Inl e
            | Inr rows \<Rightarrow>
                Inr (Some \<lparr>sd_winners =
                             sort_key (\<lambda>r. - sd_amount_won r)
                               (filter (\<lambda>r. sd_amount_won r > 0) rows),
                           sd_losers =
                             sort_key (\<lambda>r. - hand_rank_value r)
                               (filter (\<lambda>r. sd_amount_won r = 0) rows)\<rparr>)))"

text \<open>
  \<open>_complete_hand_locked\<close>. The history holds the event log as it is when the history is
  built (pydantic copies the list), so a later \<open>SESSION_END\<close> is in the hand's log only.
\<close>

definition complete_hand_locked ::
  "'p provider \<Rightarrow> 'p TableRuntime \<Rightarrow> 'p HandRuntime
     \<Rightarrow> error + 'p TableRuntime \<times> 'p HandRuntime" where
  "complete_hand_locked P t h =
     (let st = pokerkit_state h;
          reason = (if showdown_revealed_seats h \<noteq> {} then ''showdown'' else ''all_folded'');
          h1 = h\<lparr>ended := True, hand_end_reason := reason\<rparr>
      in case build_showdown_payload P h1 st of
           Inl e \<Rightarrow> Inl e
         | Inr sd \<Rightarrow>
             (case sync_table_stacks_from_state P t st h1 of
                Inl e \<Rightarrow> Inl e
              | Inr t1 \<Rightarrow>
                  (let (t2, h2) = emit_event t1 h1 HAND_END
                                    (HandEndPayload reason (map stack (seats t1)));
                       history =
                         \<lparr>hh_hand_id = hand_id h2,
                          hh_table_id = table_id t2,
                          hh_config = config t2,
                          initial_stacks_by_seat = hand_start_stacks_by_seat h2,
                          final_stacks_by_seat = map stack (seats t2),
                          hh_active_seats = active_seats h2,
                          hh_player_index_to_seat = player_index_to_seat h2,
                          hh_dealer_button_seat = h_dealer_button_seat h2,
                          hh_sb_seat = sb_seat h2,
                          hh_bb_seat = bb_seat h2,
                          hh_deal_seed = deal_seed h2,
                          hh_bot_decision_seed = bot_decision_seed h2,
                          hh_bot_delay_seed = bot_delay_seed h2,
                          hole_cards_by_seat =
                            map (\<lambda>s. normalize_hole_cards
                                        (case showdown_rows_by_seat h2 s of
                                           None \<Rightarrow> [] | Some r \<Rightarrow> hole_cards r))
                              [0..<num_seats (config t2)],
                          hh_board_cards = board_cards P st,
                          actions = action_log_internal h2,
                          pot_breakdown = pot_awards h2,
                          showdown = sd,
                          hh_hand_end_reason = reason,
                          event_count = length (event_log h2),
                          events = event_log h2\<rparr>;
                       t3 = t2\<lparr>completed_hands := (completed_hands t2)(hand_id h2 \<mapsto> history)\<rparr>
                   in case refresh_outcome t3 of
                        Inl e \<Rightarrow> Inl e
                      | Inr t4 \<Rightarrow>
                          (if outcome t4 \<noteq> RUNNING
                           then Inr (emit_event t4 h2 SESSION_END (SessionEndPayload (outcome t4)))
                           else Inr (t4, h2)))))"

section \<open>The lifecycle loop\<close>

text \<open>The code after the loop of \<open>_advance_locked\<close>, reached by its two \<open>break\<close>s.\<close>

definition advance_finish ::
  "'p provider \<Rightarrow> 'p TableRuntime \<Rightarrow> 'p HandRuntime
     \<Rightarrow> error + 'p TableRuntime \<times> 'p HandRuntime" where
  "advance_finish P t h =
     (case sync_table_stacks_from_state P t (pokerkit_state h) h of
        Inl e \<Rightarrow> Inl e
      | Inr t1 \<Rightarrow>
          (if \<not> status P (pokerkit_state h) \<and> \<not> ended h
           then complete_hand_locked P t1 h
           else Inr (t1, h)))"

text \<open>
  One turn of the loop of \<open>_advance_locked\<close> after its guard: the turn ends with
  \<open>continue\<close>, with \<open>break\<close>, with \<open>return\<close> or with an exception.
\<close>

datatype 's loop_step = Continue 's | Break 's | Return 's | Raise error

definition advance_step ::
  "'p provider \<Rightarrow> 'p TableRuntime \<Rightarrow> 'p HandRuntime
     \<Rightarrow> ('p TableRuntime \<times> 'p HandRuntime) loop_step" where
  "advance_step P t h =
     (let st = pokerkit_state h
      in if \<not> status P st then Break (t, h)
         else if can P st CanPostAnte then
           (case advance_post_ante P h of
              Inl e \<Rightarrow> Raise e
            | Inr h1 \<Rightarrow> Continue (t, h1))
         else if can P st CanPostBlindOrStraddle then
           (case post_single_blind_locked P t h of
              Inl e \<Rightarrow> Raise e
            | Inr th \<Rightarrow> Continue th)
         else if can P st CanDealHole then
           (case deal_single_hole_card_locked P t h of
              Inl e \<Rightarrow> Raise e
            | Inr th \<Rightarrow> Continue th)
         else if actor_index P st \<noteq> None then
           (case sync_table_stacks_from_state P t st h of
              Inl e \<Rightarrow> Raise e
            | Inr t1 \<Rightarrow> Return (t1, h))
         else if can P st CanCollectBets then Continue (advance_collect_bets P t h)
         else if can P st CanSelectRunoutCount then
           Continue (t, h\<lparr>pokerkit_state := snd (perform P st (SelectRunoutCount 1))\<rparr>)
         else if can P st CanBurnCard then
           (case advance_burn_card P h of
              Inl e \<Rightarrow> Raise e
            | Inr h1 \<Rightarrow> Continue (t, h1))
         else if can P st CanDealBoard then
           (case advance_deal_board P t h of
              Inl e \<Rightarrow> Raise e
            | Inr th \<Rightarrow> Continue th)
         else if can P st CanShowOrMuckHoleCards then
           (case advance_show_or_muck P t h of
              Inl e \<Rightarrow> Raise e
            | Inr th \<Rightarrow> Continue th)
         else if can P st CanKillHand then
           Continue (t, h\<lparr>pokerkit_state := snd (perform P st KillHand)\<rparr>)
         else if can P st CanPushChips then
           (case advance_push_chips P t h of
              Inl e \<Rightarrow> Raise e
            | Inr th \<Rightarrow> Continue th)
         else if can P st CanPullChips then
           (case advance_pull_chips P t h of
              Inl e \<Rightarrow> Raise e
            | Inr th \<Rightarrow> Continue th)
         else if can P st CanNoOperate then
           Continue (t, h\<lparr>pokerkit_state := snd (perform P st NoOperate)\<rparr>)
         else Break (t, h))"

text \<open>
  The loop of \<open>_advance_locked\<close>. The first argument counts the turns the iteration guard
  still allows: turn 501 raises \<open>RuntimeError\<close>. A \<open>break\<close> leads to the code after the
  loop.
\<close>

fun advance_loop ::
  "'p provider \<Rightarrow> nat \<Rightarrow> 'p TableRuntime \<Rightarrow> 'p HandRuntime
     \<Rightarrow> error + 'p TableRuntime \<times> 'p HandRuntime" where
  "advance_loop P 0 t h = Inl RuntimeError"
| "advance_loop P (Suc k) t h =
     (case advance_step P t h of
        Continue (t1, h1) \<Rightarrow> advance_loop P k t1 h1
      | Break (t1, h1) \<Rightarrow> advance_finish P t1 h1
      | Return th \<Rightarrow> Inr th
      | Raise e \<Rightarrow> Inl e)"

definition advance_locked ::
  "'p provider \<Rightarrow> 'p TableRuntime \<Rightarrow> 'p HandRuntime
     \<Rightarrow> error + 'p TableRuntime \<times> 'p HandRuntime" where
  "advance_locked P t h = advance_loop P 500 t h"

section \<open>Applying a player action\<close>

text \<open>
  The tail of \<open>_apply_player_action\<close> (lines 675 to 690): the action sequence number, the
  action log row, the stack sync and the \<open>ACTION\<close> event.
\<close>

definition log_player_action ::
  "'p provider \<Rightarrow> 'p TableRuntime \<Rightarrow> 'p HandRuntime \<Rightarrow> nat \<Rightarrow> ClientActionType \<Rightarrow> int option
     \<Rightarrow> int option \<Rightarrow> (unit, 'p TableRuntime \<times> 'p HandRuntime) result" where
  "log_player_action P t h s action_to_log amount_logged delay =
     (let h1 = h\<lparr>action_seq := action_seq h + 1\<rparr>;
          entry = \<lparr>step_index = next_step_index h1,
                   row_action_seq = action_seq h1,
                   row_seat_id = s,
                   row_action = action_to_log,
                   row_amount_to = amount_logged,
                   row_street = street_from_state P (pokerkit_state h1)\<rparr>;
          h2 = h1\<lparr>next_step_index := next_step_index h1 + 1,
                   action_log_internal := action_log_internal h1 @ [entry]\<rparr>
      in case sync_table_stacks_from_state P t (pokerkit_state h2) h2 of
           Inl e \<Rightarrow> Fatal e
         | Inr t1 \<Rightarrow>
             Returned () (emit_event t1 h2 ACTION (ActionPayload s action_to_log amount_logged delay)))"

definition amount_or_zero :: "int option \<Rightarrow> int" where
  "amount_or_zero a = (case a of None \<Rightarrow> 0 | Some x \<Rightarrow> x)"

text \<open>\<open>state.bets[state.actor_index]\<close>.\<close>

definition actor_bet :: "'p provider \<Rightarrow> 'p \<Rightarrow> error + int" where
  "actor_bet P st =
     (case actor_index P st of
        None \<Rightarrow> Inl IndexError
      | Some a \<Rightarrow> if a < length (bets P st) then Inr (bets P st ! a) else Inl IndexError)"

definition apply_player_action ::
  "'p provider \<Rightarrow> 'p TableRuntime \<Rightarrow> 'p HandRuntime \<Rightarrow> nat \<Rightarrow> ClientActionType \<Rightarrow> int option
     \<Rightarrow> int option \<Rightarrow> (unit, 'p TableRuntime \<times> 'p HandRuntime) result" where
  "apply_player_action P t h s act amount_to delay =
     (let st = pokerkit_state h
      in case actor_seat P h of
           Inl e \<Rightarrow> Fatal e
         | Inr a \<Rightarrow>
        if a \<noteq> Some s then Raised ''NOT_TURN'' (t, h)
        else if act = FOLD then
          (if \<not> can P st CanFold then Raised ''ACTION_NOT_ALLOWED'' (t, h)
           else log_player_action P t
                  (h\<lparr>pokerkit_state := snd (perform P st DoFold),
                     folded_seats := insert s (folded_seats h)\<rparr>)
                  s act amount_to delay)
        else if act = CHECK \<or> act = CALL then
          (if \<not> can P st CanCheckOrCall then Raised ''ACTION_NOT_ALLOWED'' (t, h)
           else
             (let call_amt = amount_or_zero (checking_or_calling_amount P st);
                  h1 = h\<lparr>pokerkit_state := snd (perform P st CheckOrCall)\<rparr>;
                  amount_logged = (if call_amt > 0 then Some call_amt else None)
              in if call_amt > 0 \<and> length (seats t) \<le> s then Fatal KeyError
                 else
                   (let all_in = (call_amt > 0 \<and> stack (seats t ! s) = call_amt);
                        action_to_log =
                          (if all_in then ALL_IN else if call_amt = 0 then CHECK else CALL);
                        h2 = (if all_in then h1\<lparr>all_in_seats := insert s (all_in_seats h1)\<rparr>
                              else h1)
                    in case commit_chips h2 s call_amt of
                         Inl e \<Rightarrow> Fatal e
                       | Inr h3 \<Rightarrow> log_player_action P t h3 s action_to_log amount_logged delay)))
        else if act = BET \<or> act = RAISE then
          (case amount_to of
             None \<Rightarrow> Raised ''MISSING_AMOUNT'' (t, h)
           | Some target \<Rightarrow>
               if \<not> can P st CanCompleteBetOrRaiseTo then Raised ''ACTION_NOT_ALLOWED'' (t, h)
               else
                 (case (min_completion_betting_or_raising_to_amount P st,
                        max_completion_betting_or_raising_to_amount P st) of
                    (Some min_to, Some max_to) \<Rightarrow>
                      if target < min_to \<or> target > max_to then Raised ''INVALID_SIZING'' (t, h)
                      else
                        (case actor_bet P st of
                           Inl e \<Rightarrow> Fatal e
                         | Inr bet_before \<Rightarrow>
                             (let h1 = h\<lparr>pokerkit_state :=
                                           snd (perform P st (CompleteBetOrRaiseTo target))\<rparr>
                              in case commit_chips h1 s (target - bet_before) of
                                   Inl e \<Rightarrow> Fatal e
                                 | Inr h2 \<Rightarrow>
                                     if target = max_to
                                     then log_player_action P t
                                            (h2\<lparr>all_in_seats := insert s (all_in_seats h2)\<rparr>)
                                            s ALL_IN amount_to delay
                                     else log_player_action P t h2 s act amount_to delay))
                  | _ \<Rightarrow> Raised ''ACTION_NOT_ALLOWED'' (t, h)))
        else
          (case max_completion_betting_or_raising_to_amount P st of
             Some max_to \<Rightarrow>
               if can P st CanCompleteBetOrRaiseTo then
                 (case actor_bet P st of
                    Inl e \<Rightarrow> Fatal e
                  | Inr bet_before \<Rightarrow>
                      (let h1 = h\<lparr>pokerkit_state :=
                                    snd (perform P st (CompleteBetOrRaiseTo max_to))\<rparr>
                       in case commit_chips h1 s (max_to - bet_before) of
                            Inl e \<Rightarrow> Fatal e
                          | Inr h2 \<Rightarrow>
                              log_player_action P t
                                (h2\<lparr>all_in_seats := insert s (all_in_seats h2)\<rparr>)
                                s ALL_IN (Some max_to) delay))
               else if can P st CanCheckOrCall then
                 (let call_amt = amount_or_zero (checking_or_calling_amount P st);
                      h1 = h\<lparr>pokerkit_state := snd (perform P st CheckOrCall)\<rparr>
                  in case commit_chips h1 s call_amt of
                       Inl e \<Rightarrow> Fatal e
                     | Inr h2 \<Rightarrow>
                         log_player_action P t
                           (h2\<lparr>all_in_seats := insert s (all_in_seats h2)\<rparr>)
                           s ALL_IN (if call_amt > 0 then Some call_amt else None) delay)
               else Raised ''ACTION_NOT_ALLOWED'' (t, h)
           | None \<Rightarrow>
               if can P st CanCheckOrCall then
                 (let call_amt = amount_or_zero (checking_or_calling_amount P st);
                      h1 = h\<lparr>pokerkit_state := snd (perform P st CheckOrCall)\<rparr>
                  in case commit_chips h1 s call_amt of
                       Inl e \<Rightarrow> Fatal e
                     | Inr h2 \<Rightarrow>
                         log_player_action P t
                           (h2\<lparr>all_in_seats := insert s (all_in_seats h2)\<rparr>)
                           s ALL_IN (if call_amt > 0 then Some call_amt else None) delay)
               else Raised ''ACTION_NOT_ALLOWED'' (t, h)))"

section \<open>Views\<close>

definition allowed_none :: AllowedActions where
  "allowed_none =
     \<lparr>can_fold = False, can_check = False, can_call = False, can_bet = False, can_raise = False,
      can_all_in = False, call_amount = 0, min_bet_to = None, min_raise_to = None,
      max_raise_to = None, pot_size = 0, effective_stack = 0\<rparr>"

definition allowed_actions_for_seat ::
  "'p provider \<Rightarrow> 'p TableRuntime \<Rightarrow> 'p HandRuntime \<Rightarrow> nat \<Rightarrow> error + AllowedActions" where
  "allowed_actions_for_seat P t h s =
     (let st = pokerkit_state h
      in case actor_seat P h of
           Inl e \<Rightarrow> Inl e
         | Inr a \<Rightarrow>
             if a \<noteq> Some s
             then (if length (seats t) \<le> s then Inl KeyError
                   else Inr (allowed_none\<lparr>pot_size := total_pot_amount P st,
                                           effective_stack := stack (seats t ! s)\<rparr>))
             else if bets P st = [] then Inl ValueError
             else if length (seats t) \<le> s then Inl KeyError
             else
               (let call_amt = amount_or_zero (checking_or_calling_amount P st);
                    can_complete = can P st CanCompleteBetOrRaiseTo;
                    min_to = (if can_complete
                              then min_completion_betting_or_raising_to_amount P st else None);
                    max_to = (if can_complete
                              then max_completion_betting_or_raising_to_amount P st else None);
                    has_live_bet = (Max (set (bets P st)) > 0)
                in Inr \<lparr>can_fold = can P st CanFold,
                        can_check = (can P st CanCheckOrCall \<and> call_amt = 0),
                        can_call = (can P st CanCheckOrCall \<and> call_amt > 0),
                        can_bet = (can_complete \<and> \<not> has_live_bet),
                        can_raise = (can_complete \<and> has_live_bet),
                        can_all_in = ((can P st CanCheckOrCall \<or> can_complete)
                                      \<and> stack (seats t ! s) > 0),
                        call_amount = call_amt,
                        min_bet_to = (if \<not> has_live_bet then min_to else None),
                        min_raise_to = (if has_live_bet then min_to else None),
                        max_raise_to = max_to,
                        pot_size = total_pot_amount P st,
                        effective_stack = stack (seats t ! s)\<rparr>))"

definition allowed_actions_for_viewer ::
  "'p provider \<Rightarrow> 'p TableRuntime \<Rightarrow> string \<Rightarrow> error + AllowedActions" where
  "allowed_actions_for_viewer P t viewer_id =
     (if viewer_id \<noteq> ''human'' then Inr allowed_none
      else (case current_hand t of
              None \<Rightarrow> Inr allowed_none
            | Some h \<Rightarrow> allowed_actions_for_seat P t h 0))"

text \<open>
  The loop of \<open>_build_view_state\<close> over \<open>player_index_to_seat.items()\<close>: chips in front and
  the seat's view for each player of the hand.
\<close>

fun view_players ::
  "'p provider \<Rightarrow> 'p TableRuntime \<Rightarrow> 'p HandRuntime \<Rightarrow> nat \<Rightarrow> nat list
     \<Rightarrow> int list \<times> SeatState list \<Rightarrow> error + int list \<times> SeatState list" where
  "view_players P t h i [] acc = Inr acc"
| "view_players P t h i (s # rest) (front, vs) =
     (if length (bets P (pokerkit_state h)) \<le> i then Inl IndexError
      else if length (seats t) \<le> s \<or> length vs \<le> s \<or> length front \<le> s then Inl KeyError
      else
        (let cards = (case showdown_rows_by_seat h s of
                        None \<Rightarrow> [None, None] | Some r \<Rightarrow> hole_cards r);
             v = (vs ! s)
                   \<lparr>ss_stack := stack (seats t ! s),
                    has_folded := (s \<in> folded_seats h),
                    is_all_in := (s \<in> all_in_seats h),
                    role_badge := (if s = sb_seat h then Some ''SB''
                                   else if s = bb_seat h then Some ''BB''
                                   else role_badge (vs ! s)),
                    is_dealer_button := (s = h_dealer_button_seat h),
                    ss_cards := (if s = 0 \<or> s \<in> showdown_revealed_seats h
                                 then normalize_hole_cards cards else [None, None])\<rparr>
         in view_players P t h (Suc i) rest
              (front[s := bets P (pokerkit_state h) ! i], vs[s := v])))"

fun view_pots :: "nat list \<Rightarrow> nat \<Rightarrow> Pot list \<Rightarrow> error + PotView list" where
  "view_pots p2s i [] = Inr []"
| "view_pots p2s i (p # rest) =
     (case seats_of_players p2s (pot_player_indices p) of
        Inl e \<Rightarrow> Inl e
      | Inr seat_list \<Rightarrow>
          (case view_pots p2s (Suc i) rest of
             Inl e \<Rightarrow> Inl e
           | Inr vs \<Rightarrow>
               Inr (\<lparr>pv_pot_id = i, pv_amount = pot_amount p, pv_eligible_seats = seat_list,
                     pv_label = (if i = 0 then ''POT'' else ''SIDE POT '' @ string_of_nat i)\<rparr>
                    # vs)))"

definition view_action_log :: "ActionHistoryRow list \<Rightarrow> ActionLogEntry list" where
  "view_action_log rows =
     (let recent = drop (length rows - 12) rows
      in map (\<lambda>(i, r). \<lparr>ale_event_seq = i + 1, ale_seat_id = row_seat_id r,
                         ale_action = row_action r, ale_amount_to = row_amount_to r,
                         ale_street = row_street r\<rparr>)
             (zip [0..<length recent] recent))"

definition build_view_state ::
  "'p provider \<Rightarrow> 'p TableRuntime \<Rightarrow> string \<Rightarrow> error + ViewState" where
  "build_view_state P t viewer_id =
     (let base_seats =
            map (\<lambda>raw. \<lparr>ss_seat_id = seat_id raw, ss_player_type = player_type raw,
                        ss_display_name = display_name raw, ss_stack = stack raw,
                        has_folded = False, is_all_in = False, is_busted = (stack raw \<le> 0),
                        role_badge = None, is_dealer_button = False,
                        ss_cards = [None, None]\<rparr>) (seats t);
          base_front = map (\<lambda>x. 0) (seats t)
      in case current_hand t of
           None \<Rightarrow>
             (case allowed_actions_for_viewer P t viewer_id of
                Inl e \<Rightarrow> Inl e
              | Inr allowed \<Rightarrow>
                  Inr \<lparr>v_table_id = table_id t, v_hand_id = None, v_session_outcome = outcome t,
                       v_seats = base_seats, v_board_cards = [], v_pots = [],
                       v_chips_in_front = base_front, v_action_on_seat = None, v_action_log = [],
                       v_server_action_seq = 0, v_allowed_actions = allowed,
                       v_showdown_payload = None, v_invariant = invariant_payload P t None\<rparr>)
         | Some h \<Rightarrow>
             (let st = pokerkit_state h
              in case view_players P t h 0 (player_index_to_seat h) (base_front, base_seats) of
                   Inl e \<Rightarrow> Inl e
                 | Inr (front, vs) \<Rightarrow>
                (case view_pots (player_index_to_seat h) 0 (pots P st) of
                   Inl e \<Rightarrow> Inl e
                 | Inr pvs \<Rightarrow>
                (case actor_seat P h of
                   Inl e \<Rightarrow> Inl e
                 | Inr actor \<Rightarrow>
                (case build_showdown_payload P h st of
                   Inl e \<Rightarrow> Inl e
                 | Inr sd \<Rightarrow>
                (case allowed_actions_for_viewer P t viewer_id of
                   Inl e \<Rightarrow> Inl e
                 | Inr allowed \<Rightarrow>
                     Inr \<lparr>v_table_id = table_id t, v_hand_id = Some (hand_id h),
                          v_session_outcome = outcome t, v_seats = vs,
                          v_board_cards = board_cards P st, v_pots = pvs,
                          v_chips_in_front = front, v_action_on_seat = actor,
                          v_action_log = view_action_log (action_log_internal h),
                          v_server_action_seq = action_seq h, v_allowed_actions = allowed,
                          v_showdown_payload = sd,
                          v_invariant = invariant_payload P t (Some h)\<rparr>))))))"

section \<open>Starting a hand\<close>

text \<open>
  The rotation of \<open>_start_hand_locked\<close> for three or more seats: from the big blind on,
  the next active seat is appended unless it is in the list already, until every active
  seat has a place. The source's loop has no bound of its own.
\<close>

partial_function (option) order_seats ::
  "nat list \<Rightarrow> nat \<Rightarrow> int \<Rightarrow> nat list \<Rightarrow> (error + nat list) option" where
  "order_seats active total_seats cursor ordered =
     (if length ordered < length active
      then (case next_active_after cursor active total_seats of
              Inl e \<Rightarrow> Some (Inl e)
            | Inr c \<Rightarrow>
                order_seats active total_seats (int c)
                  (if c \<in> set ordered then ordered else ordered @ [c]))
      else Some (Inr ordered))"

text \<open>The dict \<open>{seat: index for index, seat in player_index_to_seat.items()}\<close>.\<close>

fun invert_seats :: "nat \<Rightarrow> nat list \<Rightarrow> (nat \<rightharpoonup> nat) \<Rightarrow> (nat \<rightharpoonup> nat)" where
  "invert_seats i [] m = m"
| "invert_seats i (s # rest) m = invert_seats (Suc i) rest (m(s \<mapsto> i))"

text \<open>
  Lines 320 to 344 of \<open>_start_hand_locked\<close>: the dealer, the blinds and the player
  indices, from the active seats and the table's button.
\<close>

definition seat_hand ::
  "nat list \<Rightarrow> int \<Rightarrow> nat \<Rightarrow> (error + nat \<times> nat \<times> nat \<times> nat list) option" where
  "seat_hand active button total_seats =
     (case (if button \<notin> int ` set active then next_active_after button active total_seats
            else Inr (nat button)) of
        Inl e \<Rightarrow> Some (Inl e)
      | Inr dealer \<Rightarrow>
          if length active = 2
          then (case filter (\<lambda>s. s \<noteq> dealer) active of
                  [] \<Rightarrow> Some (Inl IndexError)
                | bb # others \<Rightarrow> Some (Inr (dealer, dealer, bb, [bb, dealer])))
          else (case next_active_after (int dealer) active total_seats of
                  Inl e \<Rightarrow> Some (Inl e)
                | Inr sb \<Rightarrow>
                    (case next_active_after (int sb) active total_seats of
                       Inl e \<Rightarrow> Some (Inl e)
                     | Inr bb \<Rightarrow>
                         (case order_seats active total_seats (int bb) [sb, bb] of
                            None \<Rightarrow> None
                          | Some (Inl e) \<Rightarrow> Some (Inl e)
                          | Some (Inr ordered) \<Rightarrow> Some (Inr (dealer, sb, bb, ordered))))))"

text \<open>\<open>[table.seats[player_index_to_seat[i]]["stack"] for i in range(len(active_seats))]\<close>.\<close>

fun starting_stacks_of :: "seat_row list \<Rightarrow> nat list \<Rightarrow> nat \<Rightarrow> nat \<Rightarrow> error + int list" where
  "starting_stacks_of ss p2s i 0 = Inr []"
| "starting_stacks_of ss p2s i (Suc n) =
     (if length p2s \<le> i then Inl KeyError
      else if length ss \<le> p2s ! i then Inl KeyError
      else (case starting_stacks_of ss p2s (Suc i) n of
              Inl e \<Rightarrow> Inl e
            | Inr xs \<Rightarrow> Inr (stack (ss ! (p2s ! i)) # xs)))"

text \<open>
  The hand object is shared between \<open>table.current_hand\<close> and the local variable \<open>hand\<close>.
  The model threads the hand beside the table and stores it into \<open>current_hand\<close> when an
  operation leaves.
\<close>

definition store_hand :: "'p TableRuntime \<times> 'p HandRuntime \<Rightarrow> 'p TableRuntime" where
  "store_hand th = (fst th)\<lparr>current_hand := Some (snd th)\<rparr>"

definition new_hand ::
  "'p provider \<Rightarrow> 'p TableRuntime \<Rightarrow> nat \<Rightarrow> nat list \<Rightarrow> nat \<Rightarrow> nat \<Rightarrow> nat \<Rightarrow> nat list
     \<Rightarrow> int list \<Rightarrow> 'p HandRuntime" where
  "new_hand P t hid active dealer sb bb p2s starting_stacks =
     (let deal = derive_seed P (table_seed t) hid ''deal''
      in \<lparr>hand_id = hid,
          h_dealer_button_seat = dealer,
          sb_seat = sb,
          bb_seat = bb,
          active_seats = active,
          player_index_to_seat = p2s,
          seat_to_player_index = invert_seats 0 p2s Map.empty,
          pokerkit_state =
            create_state P (ante (config t)) (small_blind (config t)) (big_blind (config t))
              starting_stacks,
          deck = build_shuffled_deck P deal,
          deck_index = 0,
          deal_seed = deal,
          bot_decision_seed = derive_seed P (table_seed t) hid ''bot_decision'',
          bot_delay_seed = derive_seed P (table_seed t) hid ''bot_delay'',
          action_seq = 0,
          next_step_index = 1,
          action_log_internal = [],
          event_log = [],
          committed_this_street_by_seat = map (\<lambda>s. 0) [0..<num_seats (config t)],
          total_committed_by_seat = map (\<lambda>s. 0) [0..<num_seats (config t)],
          hand_start_stacks_by_seat = map (\<lambda>s. stack (seats t ! s)) [0..<num_seats (config t)],
          idempotency_cache = Map.empty,
          showdown_revealed_seats = {},
          showdown_rows_by_seat =
            (\<lambda>s. if s \<in> set active then Some \<lparr>hole_cards = [], amount_won = 0\<rparr> else None),
          pot_awards = [],
          folded_seats = {},
          all_in_seats = {},
          ended = False,
          hand_end_reason = [],
          h_event_seq = 0\<rparr>)"

text \<open>
  \<open>_start_hand_locked\<close>. It returns the new hand and the table that holds it as its
  current hand.
\<close>

definition start_hand_locked ::
  "'p provider \<Rightarrow> 'p TableRuntime \<Rightarrow> ('p HandRuntime, 'p TableRuntime) result option" where
  "start_hand_locked P t =
     (let active = active_seats_of_table t
      in if length active < 2
         then (case refresh_outcome t of
                 Inl e \<Rightarrow> Some (Fatal e)
               | Inr t1 \<Rightarrow> Some (Raised ''NOT_ENOUGH_PLAYERS'' t1))
         else
           (case seat_hand active (dealer_button_seat t) (num_seats (config t)) of
              None \<Rightarrow> None
            | Some (Inl e) \<Rightarrow> Some (Fatal e)
            | Some (Inr (dealer, sb, bb, p2s)) \<Rightarrow>
                (case starting_stacks_of (seats t) p2s 0 (length active) of
                   Inl e \<Rightarrow> Some (Fatal e)
                 | Inr starting_stacks \<Rightarrow>
                     (case next_active_after (int dealer) active (num_seats (config t)) of
                        Inl e \<Rightarrow> Some (Fatal e)
                      | Inr button \<Rightarrow>
                          if length (seats t) < num_seats (config t) then Some (Fatal KeyError)
                          else
                          (let hid = next_hand_id t;
                               t1 = t\<lparr>next_hand_id := hid + 1, dealer_button_seat := int button\<rparr>;
                               h = new_hand P t1 hid active dealer sb bb p2s starting_stacks;
                               (t2, h2) = emit_event t1 h HAND_START
                                            (HandStartPayload dealer sb bb
                                               (hand_start_stacks_by_seat h))
                           in case post_blinds_locked P t2 h2 of
                                None \<Rightarrow> None
                              | Some (Inl e) \<Rightarrow> Some (Fatal e)
                              | Some (Inr (t3, h3)) \<Rightarrow>
                                  (case deal_hole_cards_locked P t3 h3 of
                                     None \<Rightarrow> None
                                   | Some (Inl e) \<Rightarrow> Some (Fatal e)
                                   | Some (Inr (t4, h4)) \<Rightarrow>
                                       (case sync_table_stacks_from_state P t4
                                               (pokerkit_state h4) h4 of
                                          Inl e \<Rightarrow> Some (Fatal e)
                                        | Inr t5 \<Rightarrow>
                                            Some (Returned h4 (store_hand (t5, h4))))))))))"

section \<open>The public operations\<close>

definition start_new_hand ::
  "'p provider \<Rightarrow> 'p TableRuntime \<Rightarrow> (StartHandResponse, 'p TableRuntime) result option" where
  "start_new_hand P t =
     (if current_hand t \<noteq> None then Some (Raised ''HAND_ALREADY_RUNNING'' t)
      else
        (case refresh_outcome t of
           Inl e \<Rightarrow> Some (Fatal e)
         | Inr t1 \<Rightarrow>
             if outcome t1 \<noteq> RUNNING
             then (case build_view_state P t1 ''human'' of
                     Inl e \<Rightarrow> Some (Fatal e)
                   | Inr view \<Rightarrow>
                       Some (Returned \<lparr>start_view_state = view, event_queue = []\<rparr> t1))
             else
               (case start_hand_locked P t1 of
                  None \<Rightarrow> None
                | Some (Fatal e) \<Rightarrow> Some (Fatal e)
                | Some (Raised c t2) \<Rightarrow> Some (Raised c t2)
                | Some (Returned h t2) \<Rightarrow>
                    (case advance_locked P t2 h of
                       Inl e \<Rightarrow> Some (Fatal e)
                     | Inr (t3, h3) \<Rightarrow>
                         (case build_view_state P (store_hand (t3, h3)) ''human'' of
                            Inl e \<Rightarrow> Some (Fatal e)
                          | Inr view \<Rightarrow>
                              Some (Returned \<lparr>start_view_state = view,
                                              event_queue = event_log h3\<rparr>
                                      (store_hand (t3, h3))))))))"

definition get_view_state :: "'p provider \<Rightarrow> 'p TableRuntime \<Rightarrow> string \<Rightarrow> error + ViewState" where
  "get_view_state P t viewer_id = build_view_state P t viewer_id"

definition get_server_action_seq :: "'p TableRuntime \<Rightarrow> nat" where
  "get_server_action_seq t = (case current_hand t of None \<Rightarrow> 0 | Some h \<Rightarrow> action_seq h)"

text \<open>
  \<open>submit_action\<close>. The checks are in the source's order: the active hand, the idempotency
  cache, the viewer, the action sequence number, the turn.
\<close>

definition submit_action ::
  "'p provider \<Rightarrow> 'p TableRuntime \<Rightarrow> string \<Rightarrow> ClientActionType \<Rightarrow> int \<Rightarrow> string \<Rightarrow> int option
     \<Rightarrow> (SubmitActionResponse, 'p TableRuntime) result" where
  "submit_action P t viewer_id act seq idempotency_key amount_to =
     (case current_hand t of
        None \<Rightarrow> Raised ''NO_ACTIVE_HAND'' t
      | Some h \<Rightarrow>
          (case idempotency_cache h idempotency_key of
             Some cached \<Rightarrow> Returned cached t
           | None \<Rightarrow>
               if viewer_id \<noteq> ''human'' then Raised ''UNAUTHORIZED_VIEWER'' t
               else if seq \<noteq> int (action_seq h) + 1 then Raised ''BAD_ACTION_SEQ'' t
               else
                 (case actor_seat P h of
                    Inl e \<Rightarrow> Fatal e
                  | Inr a \<Rightarrow>
                      if a \<noteq> Some 0 then Raised ''NOT_YOUR_TURN'' t
                      else
                        (let start_index = length (event_log h)
                         in case apply_player_action P t h 0 act amount_to None of
                              Fatal e \<Rightarrow> Fatal e
                            | Raised c th \<Rightarrow>
                                (case build_view_state P (store_hand th) viewer_id of
                                   Inl e \<Rightarrow> Fatal e
                                 | Inr view \<Rightarrow>
                                     Returned \<lparr>accepted = False, resp_error = Some c,
                                               resp_view_state = view, event_queue_delta = [],
                                               resp_server_action_seq = action_seq (snd th)\<rparr>
                                       (store_hand th))
                            | Returned u th1 \<Rightarrow>
                                (case advance_locked P (fst th1) (snd th1) of
                                   Inl e \<Rightarrow> Fatal e
                                 | Inr (t2, h2) \<Rightarrow>
                                     (case build_view_state P (store_hand (t2, h2)) viewer_id of
                                        Inl e \<Rightarrow> Fatal e
                                      | Inr view \<Rightarrow>
                                          (let response =
                                                 \<lparr>accepted = True, resp_error = None,
                                                  resp_view_state = view,
                                                  event_queue_delta =
                                                    drop start_index (event_log h2),
                                                  resp_server_action_seq = action_seq h2\<rparr>
                                           in Returned response
                                                (store_hand
                                                   (t2, h2\<lparr>idempotency_cache :=
                                                             (idempotency_cache h2)
                                                               (idempotency_key \<mapsto> response)\<rparr>)))))))))"

definition advance ::
  "'p provider \<Rightarrow> 'p TableRuntime
     \<Rightarrow> (ViewState \<times> EventEnvelope list, 'p TableRuntime) result" where
  "advance P t =
     (case current_hand t of
        None \<Rightarrow>
          (case build_view_state P t ''human'' of
             Inl e \<Rightarrow> Fatal e
           | Inr view \<Rightarrow> Returned (view, []) t)
      | Some h \<Rightarrow>
          (case advance_locked P t h of
             Inl e \<Rightarrow> Fatal e
           | Inr (t1, h1) \<Rightarrow>
               (case build_view_state P (store_hand (t1, h1)) ''human'' of
                  Inl e \<Rightarrow> Fatal e
                | Inr view \<Rightarrow>
                    Returned (view, drop (length (event_log h)) (event_log h1))
                      (store_hand (t1, h1)))))"

text \<open>
  The steps shared by the two places of \<open>run_bots_until_human_turn\<close> that follow
  \<open>_advance_locked\<close>: when the hand has ended, the table drops it and refreshes its outcome.
  The boolean tells whether the loop is left.
\<close>

definition after_bot_advance ::
  "'p TableRuntime \<times> 'p HandRuntime \<Rightarrow> error + bool \<times> 'p TableRuntime \<times> 'p HandRuntime" where
  "after_bot_advance th =
     (if ended (snd th)
      then (case refresh_outcome ((fst th)\<lparr>current_hand := None\<rparr>) of
              Inl e \<Rightarrow> Inl e
            | Inr t1 \<Rightarrow> Inr (True, t1, snd th))
      else Inr (False, store_hand th, snd th))"

text \<open>
  One turn of the loop of \<open>run_bots_until_human_turn\<close> after its guard, and the loop with
  the turns its guard still allows (2000 at the start). The boolean of a turn tells whether
  the loop is left. The table handed back holds its current hand, or none when the hand
  ended.
\<close>

definition run_bots_step ::
  "'p provider \<Rightarrow> 'p TableRuntime \<Rightarrow> 'p HandRuntime
     \<Rightarrow> (bool, 'p TableRuntime \<times> 'p HandRuntime) result" where
  "run_bots_step P t h =
     (case actor_seat P h of
        Inl e \<Rightarrow> Fatal e
      | Inr None \<Rightarrow>
          (case advance_locked P t h of
             Inl e \<Rightarrow> Fatal e
           | Inr th \<Rightarrow>
               (case after_bot_advance th of
                  Inl e \<Rightarrow> Fatal e
                | Inr (leave, t1, h1) \<Rightarrow> Returned leave (t1, h1)))
      | Inr (Some s) \<Rightarrow>
          if s = 0 then Returned True (store_hand (t, h), h)
          else
            (case allowed_actions_for_seat P t h s of
               Inl e \<Rightarrow> Fatal e
             | Inr allowed \<Rightarrow>
                 (let decision =
                        choose_action P allowed (stack (seats t ! s))
                          (derive_seed P (bot_decision_seed h) (action_seq h + s) ''decision'')
                  in case apply_player_action P t h s (bd_action decision)
                            (bd_amount_to decision) (Some (think_delay_ms decision)) of
                       Fatal e \<Rightarrow> Fatal e
                     | Raised c th \<Rightarrow> Raised c (store_hand th, snd th)
                     | Returned u (t1, h1) \<Rightarrow>
                         (case advance_locked P t1 h1 of
                            Inl e \<Rightarrow> Fatal e
                          | Inr th \<Rightarrow>
                              (case after_bot_advance th of
                                 Inl e \<Rightarrow> Fatal e
                               | Inr (leave, t2, h2) \<Rightarrow> Returned leave (t2, h2))))))"

fun run_bots_loop ::
  "'p provider \<Rightarrow> nat \<Rightarrow> 'p TableRuntime \<Rightarrow> 'p HandRuntime
     \<Rightarrow> (unit, 'p TableRuntime \<times> 'p HandRuntime) result" where
  "run_bots_loop P 0 t h = Fatal RuntimeError"
| "run_bots_loop P (Suc k) t h =
     (case run_bots_step P t h of
        Fatal e \<Rightarrow> Fatal e
      | Raised c th \<Rightarrow> Raised c th
      | Returned leave (t1, h1) \<Rightarrow>
          if leave then Returned () (t1, h1) else run_bots_loop P k t1 h1)"

definition run_bots_until_human_turn ::
  "'p provider \<Rightarrow> 'p TableRuntime
     \<Rightarrow> (ViewState \<times> EventEnvelope list, 'p TableRuntime) result" where
  "run_bots_until_human_turn P t =
     (case current_hand t of
        None \<Rightarrow>
          (case build_view_state P t ''human'' of
             Inl e \<Rightarrow> Fatal e
           | Inr view \<Rightarrow> Returned (view, []) t)
      | Some h \<Rightarrow>
          (case run_bots_loop P 2000 t h of
             Fatal e \<Rightarrow> Fatal e
           | Raised c (t1, h1) \<Rightarrow> Raised c t1
           | Returned u (t1, h1) \<Rightarrow>
               (case build_view_state P t1 ''human'' of
                  Inl e \<Rightarrow> Fatal e
                | Inr view \<Rightarrow>
                    Returned (view, drop (length (event_log h)) (event_log h1)) t1)))"

definition restart_session ::
  "'p provider \<Rightarrow> 'p TableRuntime \<Rightarrow> (StartHandResponse, 'p TableRuntime) result option" where
  "restart_session P t =
     (let t1 = t\<lparr>seats := map (\<lambda>s. s\<lparr>stack := starting_stack (config t)\<rparr>) (seats t),
                 outcome := RUNNING,
                 current_hand := None,
                 completed_hands := Map.empty,
                 dealer_button_seat := int (num_seats (config t)) - 1,
                 next_hand_id := 1\<rparr>
      in case start_hand_locked P t1 of
           None \<Rightarrow> None
         | Some (Fatal e) \<Rightarrow> Some (Fatal e)
         | Some (Raised c t2) \<Rightarrow> Some (Raised c t2)
         | Some (Returned h t2) \<Rightarrow>
             (case advance_locked P t2 h of
                Inl e \<Rightarrow> Some (Fatal e)
              | Inr (t3, h3) \<Rightarrow>
                  (case build_view_state P (store_hand (t3, h3)) ''human'' of
                     Inl e \<Rightarrow> Some (Fatal e)
                   | Inr view \<Rightarrow>
                       Some (Returned \<lparr>start_view_state = view, event_queue = event_log h3\<rparr>
                               (store_hand (t3, h3))))))"

text \<open>
  \<open>export_hand_history\<close>: in viewer mode the hole cards of every seat but seat 0 are
  replaced when the history has no showdown. The table is only read.
\<close>

definition export_hand_history ::
  "'p TableRuntime \<Rightarrow> nat \<Rightarrow> string \<Rightarrow> error + HandHistory" where
  "export_hand_history t hid mode =
     (case completed_hands t hid of
        None \<Rightarrow> Inl (EngineRejectedAction ''HAND_NOT_FOUND'')
      | Some hand \<Rightarrow>
          Inr (if mode = ''viewer''
               then hand\<lparr>hole_cards_by_seat :=
                           map (\<lambda>(seat_key, cards).
                                  if seat_key \<noteq> 0 \<and> showdown hand = None then [None, None]
                                  else cards)
                             (zip [0..<length (hole_cards_by_seat hand)]
                                  (hole_cards_by_seat hand))\<rparr>
               else hand))"

section \<open>Replay and invariant verification\<close>

text \<open>Python's indexing and slicing of a list by integers: a negative index counts from the end.\<close>

definition py_get :: "'a list \<Rightarrow> int \<Rightarrow> error + 'a" where
  "py_get xs i =
     (let n = int (length xs); j = (if i < 0 then i + n else i)
      in if 0 \<le> j \<and> j < n then Inr (xs ! nat j) else Inl IndexError)"

definition py_clamp :: "int \<Rightarrow> int \<Rightarrow> int" where
  "py_clamp n i = (if i < 0 then max 0 (i + n) else min i n)"

definition py_slice :: "'a list \<Rightarrow> int \<Rightarrow> int \<Rightarrow> 'a list" where
  "py_slice xs a b =
     (let n = int (length xs); lo = py_clamp n a; hi = py_clamp n b
      in take (nat (hi - lo)) (drop (nat lo) xs))"

text \<open>
  Modelled from the spec: the replay calls \<open>fold\<close>, \<open>check_or_call\<close> and
  \<open>complete_bet_or_raise_to\<close> without asking the predicate first; the provider itself
  refuses an operation that is not legal (section 6, and the sizing window of section 4.2),
  which is pokerkit's \<open>ValueError\<close>.
\<close>

definition strict_fold :: "'p provider \<Rightarrow> 'p \<Rightarrow> error + 'p" where
  "strict_fold P st =
     (if can P st CanFold then Inr (snd (perform P st DoFold)) else Inl ValueError)"

definition strict_check_or_call :: "'p provider \<Rightarrow> 'p \<Rightarrow> error + 'p" where
  "strict_check_or_call P st =
     (if can P st CanCheckOrCall then Inr (snd (perform P st CheckOrCall)) else Inl ValueError)"

definition strict_complete_bet_or_raise_to :: "'p provider \<Rightarrow> 'p \<Rightarrow> int \<Rightarrow> error + 'p" where
  "strict_complete_bet_or_raise_to P st target =
     (case (min_completion_betting_or_raising_to_amount P st,
            max_completion_betting_or_raising_to_amount P st) of
        (Some min_to, Some max_to) \<Rightarrow>
          if can P st CanCompleteBetOrRaiseTo \<and> min_to \<le> target \<and> target \<le> max_to
          then Inr (snd (perform P st (CompleteBetOrRaiseTo target)))
          else Inl ValueError
      | _ \<Rightarrow> Inl ValueError)"

text \<open>
  The forced sub-steps that \<open>_replay_advance\<close> and the closing loop of
  \<open>_replay_from_history\<close> share, in their order; \<open>None\<close> when the provider offers none of
  them. Posting an ante is not among them.
\<close>

definition replay_forced_step ::
  "'p provider \<Rightarrow> 'p \<Rightarrow> card list \<Rightarrow> int \<Rightarrow> (error + 'p \<times> int) option" where
  "replay_forced_step P st dck deck_idx =
     (if can P st CanCollectBets then Some (Inr (snd (perform P st CollectBets), deck_idx))
      else if can P st CanSelectRunoutCount
      then Some (Inr (snd (perform P st (SelectRunoutCount 1)), deck_idx))
      else if can P st CanBurnCard
      then (case py_get dck deck_idx of
              Inl e \<Rightarrow> Some (Inl e)
            | Inr c \<Rightarrow> Some (Inr (snd (perform P st (BurnCard c)), deck_idx + 1)))
      else if can P st CanDealBoard
      then (let n = int (board_dealing_count P st)
            in Some (Inr (snd (perform P st (DealBoard (py_slice dck deck_idx (deck_idx + n)))),
                          deck_idx + n)))
      else if can P st CanShowOrMuckHoleCards
      then Some (Inr (snd (perform P st (ShowOrMuckHoleCards True)), deck_idx))
      else if can P st CanKillHand then Some (Inr (snd (perform P st KillHand), deck_idx))
      else if can P st CanPushChips then Some (Inr (snd (perform P st PushChips), deck_idx))
      else if can P st CanPullChips then Some (Inr (snd (perform P st PullChips), deck_idx))
      else if can P st CanNoOperate then Some (Inr (snd (perform P st NoOperate), deck_idx))
      else None)"

text \<open>
  \<open>_replay_advance\<close>, with the turns its guard still allows (500 at the start). Its deck
  index is a local variable: only the state is handed back.
\<close>

fun replay_advance :: "'p provider \<Rightarrow> nat \<Rightarrow> 'p \<Rightarrow> card list \<Rightarrow> int \<Rightarrow> error + 'p" where
  "replay_advance P 0 st dck deck_idx =
     (if actor_index P st = None \<and> status P st then Inl AssertionError else Inr st)"
| "replay_advance P (Suc k) st dck deck_idx =
     (if actor_index P st = None \<and> status P st
      then (case replay_forced_step P st dck deck_idx of
              None \<Rightarrow> Inr st
            | Some (Inl e) \<Rightarrow> Inl e
            | Some (Inr (st1, i1)) \<Rightarrow> replay_advance P k st1 dck i1)
      else Inr st)"

definition deck_index_after_advance :: "'p provider \<Rightarrow> 'p \<Rightarrow> int" where
  "deck_index_after_advance P st = 52 - int (dealable_count P st)"

text \<open>One logged action applied to the provider's state, as the loop over the rows does.\<close>

definition replay_row_action :: "'p provider \<Rightarrow> 'p \<Rightarrow> ActionHistoryRow \<Rightarrow> error + 'p" where
  "replay_row_action P st row =
     (if row_action row = FOLD then strict_fold P st
      else if row_action row = CHECK \<or> row_action row = CALL then strict_check_or_call P st
      else if row_action row = BET \<or> row_action row = RAISE
      then (case row_amount_to row of
              None \<Rightarrow> Inl AssertionError
            | Some target \<Rightarrow> strict_complete_bet_or_raise_to P st target)
      else if can P st CanCompleteBetOrRaiseTo
      then (case max_completion_betting_or_raising_to_amount P st of
              None \<Rightarrow> Inl AssertionError
            | Some max_to \<Rightarrow> strict_complete_bet_or_raise_to P st max_to)
      else strict_check_or_call P st)"

fun replay_rows ::
  "'p provider \<Rightarrow> nat list \<Rightarrow> card list \<Rightarrow> ActionHistoryRow list \<Rightarrow> 'p \<Rightarrow> int
     \<Rightarrow> error + 'p \<times> int" where
  "replay_rows P p2s dck [] st deck_idx = Inr (st, deck_idx)"
| "replay_rows P p2s dck (row # rest) st deck_idx =
     (case (if actor_index P st = None
            then (case replay_advance P 500 st dck deck_idx of
                    Inl e \<Rightarrow> Inl e
                  | Inr st1 \<Rightarrow> Inr (st1, deck_index_after_advance P st1))
            else Inr (st, deck_idx)) of
        Inl e \<Rightarrow> Inl e
      | Inr (st1, i1) \<Rightarrow>
          (case actor_index P st1 of
             None \<Rightarrow> replay_rows P p2s dck rest st1 i1
           | Some actor \<Rightarrow>
               if length p2s \<le> actor then Inl KeyError
               else if p2s ! actor \<noteq> row_seat_id row then Inl AssertionError
               else (case replay_row_action P st1 row of
                       Inl e \<Rightarrow> Inl e
                     | Inr st2 \<Rightarrow> replay_rows P p2s dck rest st2 i1)))"

text \<open>
  The closing loop of \<open>_replay_from_history\<close>, with the turns its guard still allows (1000
  at the start): an exposed actor checks or calls, a forced sub-step is performed, and the
  loop is left when nothing progressed.
\<close>

fun replay_finish :: "'p provider \<Rightarrow> nat \<Rightarrow> 'p \<Rightarrow> card list \<Rightarrow> int \<Rightarrow> error + 'p" where
  "replay_finish P 0 st dck deck_idx = (if status P st then Inl AssertionError else Inr st)"
| "replay_finish P (Suc k) st dck deck_idx =
     (if status P st
      then (if actor_index P st \<noteq> None
            then (case strict_check_or_call P st of
                    Inl e \<Rightarrow> Inl e
                  | Inr st1 \<Rightarrow> replay_finish P k st1 dck deck_idx)
            else (case replay_forced_step P st dck deck_idx of
                    None \<Rightarrow> Inr st
                  | Some (Inl e) \<Rightarrow> Inl e
                  | Some (Inr (st1, i1)) \<Rightarrow> replay_finish P k st1 dck i1))
      else Inr st)"

text \<open>The two opening loops of the replay: blinds, then hole cards from the deck.\<close>

partial_function (option) replay_post_blinds :: "'p provider \<Rightarrow> 'p \<Rightarrow> 'p option" where
  "replay_post_blinds Pv st =
     (if can Pv st CanPostBlindOrStraddle
      then replay_post_blinds Pv (snd (perform Pv st PostBlindOrStraddle))
      else Some st)"

partial_function (option) replay_deal_holes ::
  "'p provider \<Rightarrow> 'p \<Rightarrow> card list \<Rightarrow> int \<Rightarrow> (error + 'p \<times> int) option" where
  "replay_deal_holes Pv st dck deck_idx =
     (if can Pv st CanDealHole
      then (case py_get dck deck_idx of
              Inl e \<Rightarrow> Some (Inl e)
            | Inr c \<Rightarrow> replay_deal_holes Pv (snd (perform Pv st (DealHole c))) dck (deck_idx + 1))
      else Some (Inr (st, deck_idx)))"

text \<open>
  \<open>[initial_stacks_by_seat[player_index_to_seat[i]] for i in range(len(active_seats))]\<close>.
\<close>

fun replay_starting_stacks :: "int list \<Rightarrow> nat list \<Rightarrow> nat \<Rightarrow> nat \<Rightarrow> error + int list" where
  "replay_starting_stacks init p2s i 0 = Inr []"
| "replay_starting_stacks init p2s i (Suc n) =
     (if length p2s \<le> i then Inl KeyError
      else if length init \<le> p2s ! i then Inl KeyError
      else (case replay_starting_stacks init p2s (Suc i) n of
              Inl e \<Rightarrow> Inl e
            | Inr xs \<Rightarrow> Inr (init ! (p2s ! i) # xs)))"

text \<open>
  The dict \<open>final_stacks\<close> as an association list with one entry per key: the provider's
  stack for every seat of the hand, then the initial stack (or 0) for every other seat of
  the table.
\<close>

fun replay_player_stacks ::
  "int list \<Rightarrow> nat \<Rightarrow> nat list \<Rightarrow> (nat \<times> int) list \<Rightarrow> error + (nat \<times> int) list" where
  "replay_player_stacks xs i [] acc = Inr acc"
| "replay_player_stacks xs i (s # rest) acc =
     (if length xs \<le> i then Inl IndexError
      else replay_player_stacks xs (Suc i) rest (AList.update s (xs ! i) acc))"

fun replay_other_stacks :: "int list \<Rightarrow> nat list \<Rightarrow> (nat \<times> int) list \<Rightarrow> (nat \<times> int) list" where
  "replay_other_stacks init [] acc = acc"
| "replay_other_stacks init (s # rest) acc =
     replay_other_stacks init rest
       (if s \<in> fst ` set acc then acc
        else acc @ [(s, if s < length init then init ! s else 0)])"

record ReplaySimulation =
  sim_final_stacks_by_seat :: "(nat \<times> int) list"
  sim_board_cards :: "card list"
  sim_showdown :: "ShowdownPayload option"
  sim_hand_end_reason :: string
  sim_chip_conservation :: bool
  sim_hand_terminated :: bool
  sim_action_replay_match :: bool
  sim_event_seq_monotonic :: bool

text \<open>
  The provider's state at the end of the replay: created from the recorded stacks, blinds
  and hole cards, the logged rows, the closing loop.
\<close>

definition replay_state :: "'p provider \<Rightarrow> HandHistory \<Rightarrow> (error + 'p) option" where
  "replay_state P hh =
     (case replay_starting_stacks (initial_stacks_by_seat hh) (hh_player_index_to_seat hh) 0
             (length (hh_active_seats hh)) of
        Inl e \<Rightarrow> Some (Inl e)
      | Inr starting_stacks \<Rightarrow>
          (let cfg = hh_config hh;
               st0 = create_state P (ante cfg) (small_blind cfg) (big_blind cfg) starting_stacks;
               dck = build_shuffled_deck P (hh_deal_seed hh)
           in case replay_post_blinds P st0 of
                None \<Rightarrow> None
              | Some st1 \<Rightarrow>
                  (case replay_deal_holes P st1 dck 0 of
                     None \<Rightarrow> None
                   | Some (Inl e) \<Rightarrow> Some (Inl e)
                   | Some (Inr (st2, i2)) \<Rightarrow>
                       (case replay_rows P (hh_player_index_to_seat hh) dck (actions hh) st2 i2 of
                          Inl e \<Rightarrow> Some (Inl e)
                        | Inr (st3, i3) \<Rightarrow> Some (replay_finish P 1000 st3 dck i3)))))"

fun event_seq_monotonic :: "EventEnvelope list \<Rightarrow> bool" where
  "event_seq_monotonic (l # r # rest) =
     (env_event_seq l < env_event_seq r \<and> event_seq_monotonic (r # rest))"
| "event_seq_monotonic evs = True"

definition replay_from_history ::
  "'p provider \<Rightarrow> HandHistory \<Rightarrow> (error + ReplaySimulation) option" where
  "replay_from_history P hh =
     (case replay_state P hh of
        None \<Rightarrow> None
      | Some (Inl e) \<Rightarrow> Some (Inl e)
      | Some (Inr st) \<Rightarrow>
          (case replay_player_stacks (stacks P st) 0 (hh_player_index_to_seat hh) [] of
             Inl e \<Rightarrow> Some (Inl e)
           | Inr player_stacks \<Rightarrow>
               (let final_stacks =
                      replay_other_stacks (initial_stacks_by_seat hh)
                        [0..<num_seats (hh_config hh)] player_stacks
                in Some (Inr
                     \<lparr>sim_final_stacks_by_seat = final_stacks,
                      sim_board_cards = board_cards P st,
                      sim_showdown = showdown hh,
                      sim_hand_end_reason = hh_hand_end_reason hh,
                      sim_chip_conservation =
                        (sum_list (map snd final_stacks) = sum_list (initial_stacks_by_seat hh)),
                      sim_hand_terminated = (\<not> status P st),
                      sim_action_replay_match =
                        (set final_stacks
                           = set (zip [0..<length (final_stacks_by_seat hh)]
                                      (final_stacks_by_seat hh))),
                      sim_event_seq_monotonic = event_seq_monotonic (events hh)\<rparr>))))"

record ReplayTerminal =
  rt_hand_id :: nat
  rt_final_stacks_by_seat :: "(nat \<times> int) list"
  rt_board_cards :: "card list"
  rt_showdown :: "ShowdownPayload option"
  rt_hand_end_reason :: string

record InvariantChecks =
  chk_chip_conservation :: bool
  chk_hand_terminated :: bool
  chk_action_replay_match :: bool
  chk_event_seq_monotonic :: bool

record ReplayResult =
  terminal_state :: ReplayTerminal
  invariant_checks :: InvariantChecks

definition replay_hand_history ::
  "'p provider \<Rightarrow> HandHistory \<Rightarrow> (error + ReplayResult) option" where
  "replay_hand_history P hh =
     (case replay_from_history P hh of
        None \<Rightarrow> None
      | Some (Inl e) \<Rightarrow> Some (Inl e)
      | Some (Inr sim) \<Rightarrow>
          Some (Inr \<lparr>terminal_state =
                       \<lparr>rt_hand_id = hh_hand_id hh,
                        rt_final_stacks_by_seat = sim_final_stacks_by_seat sim,
                        rt_board_cards = sim_board_cards sim,
                        rt_showdown = sim_showdown sim,
                        rt_hand_end_reason = sim_hand_end_reason sim\<rparr>,
                     invariant_checks =
                       \<lparr>chk_chip_conservation = sim_chip_conservation sim,
                        chk_hand_terminated = sim_hand_terminated sim,
                        chk_action_replay_match = sim_action_replay_match sim,
                        chk_event_seq_monotonic = sim_event_seq_monotonic sim\<rparr>\<rparr>))"

declare post_blinds_locked.simps [code]
declare deal_hole_cards_locked.simps [code]
declare order_seats.simps [code]
declare replay_post_blinds.simps [code]
declare replay_deal_holes.simps [code]

section \<open>A scripted rules provider\<close>

text \<open>
  A small provider to run the engine on concrete hands. Its state holds the stacks, the
  bets, one pot and the script of the sub-steps still to come: the head of the script is
  the only thing the provider offers, and performing it moves the chips it stands for.
  Every operation of it keeps the chips of stacks, bets and pot together unchanged, a hand is
  live while steps remain or chips are in play, and its bots check when they can and fold
  otherwise.
\<close>

datatype toy_step =
    TAnte nat int | TBlind nat int | THole nat | TActor nat | TCollect | TRunout | TBurn
  | TBoard nat | TShow nat "card list" | TKill | TPush nat "int list" | TPull nat | TNoop

record toy_state =
  toy_stacks :: "int list"
  toy_bets :: "int list"
  toy_pot :: int
  toy_script :: "toy_step list"
  toy_board :: "card list"
  toy_dealt :: nat

definition toy_move :: "nat \<Rightarrow> int \<Rightarrow> toy_state \<Rightarrow> toy_state" where
  "toy_move p x st =
     (if p < length (toy_stacks st) \<and> p < length (toy_bets st)
      then st\<lparr>toy_stacks := (toy_stacks st)[p := toy_stacks st ! p - x],
              toy_bets := (toy_bets st)[p := toy_bets st ! p + x]\<rparr>
      else st)"

definition toy_call_amount :: "nat \<Rightarrow> toy_state \<Rightarrow> int" where
  "toy_call_amount p st =
     (if p < length (toy_stacks st) \<and> p < length (toy_bets st)
      then min (toy_stacks st ! p) (Max (set (toy_bets st)) - toy_bets st ! p)
      else 0)"

definition toy_can :: "toy_state \<Rightarrow> capability \<Rightarrow> bool" where
  "toy_can st c =
     (case toy_script st of
        [] \<Rightarrow> False
      | step # rest \<Rightarrow>
          (case step of
             TAnte p x \<Rightarrow> c = CanPostAnte
           | TBlind p x \<Rightarrow> c = CanPostBlindOrStraddle
           | THole p \<Rightarrow> c = CanDealHole
           | TActor p \<Rightarrow>
               c = CanFold \<or> c = CanCheckOrCall
               \<or> (c = CanCompleteBetOrRaiseTo \<and> p < length (toy_stacks st)
                   \<and> toy_call_amount p st < toy_stacks st ! p)
           | TCollect \<Rightarrow> c = CanCollectBets
           | TRunout \<Rightarrow> c = CanSelectRunoutCount
           | TBurn \<Rightarrow> c = CanBurnCard
           | TBoard n \<Rightarrow> c = CanDealBoard
           | TShow p cs \<Rightarrow> c = CanShowOrMuckHoleCards
           | TKill \<Rightarrow> c = CanKillHand
           | TPush i xs \<Rightarrow> c = CanPushChips
           | TPull p \<Rightarrow> c = CanPullChips
           | TNoop \<Rightarrow> c = CanNoOperate))"

definition toy_info :: OpInfo where
  "toy_info = \<lparr>op_player_index = 0, op_amount = 0, op_hole_cards = [], op_pot_index = 0,
               op_amounts = []\<rparr>"

definition toy_perform :: "toy_state \<Rightarrow> operation \<Rightarrow> OpInfo \<times> toy_state" where
  "toy_perform st op =
     (case toy_script st of
        [] \<Rightarrow> (toy_info, st)
      | step # rest \<Rightarrow>
          (let st1 = st\<lparr>toy_script := rest\<rparr>
           in case step of
                TAnte p x \<Rightarrow> (toy_info\<lparr>op_player_index := p, op_amount := x\<rparr>, toy_move p x st1)
              | TBlind p x \<Rightarrow> (toy_info\<lparr>op_player_index := p, op_amount := x\<rparr>, toy_move p x st1)
              | THole p \<Rightarrow> (toy_info\<lparr>op_player_index := p\<rparr>, st1\<lparr>toy_dealt := toy_dealt st1 + 1\<rparr>)
              | TActor p \<Rightarrow>
                  (toy_info\<lparr>op_player_index := p\<rparr>,
                   (case op of
                      CheckOrCall \<Rightarrow> toy_move p (toy_call_amount p st) st1
                    | CompleteBetOrRaiseTo x \<Rightarrow>
                        (if p < length (toy_bets st) then toy_move p (x - toy_bets st ! p) st1
                         else st1)
                    | _ \<Rightarrow> st1))
              | TCollect \<Rightarrow>
                  (toy_info, st1\<lparr>toy_pot := toy_pot st + sum_list (toy_bets st),
                                  toy_bets := map (\<lambda>b. 0) (toy_bets st)\<rparr>)
              | TRunout \<Rightarrow> (toy_info, st1)
              | TBurn \<Rightarrow> (toy_info, st1\<lparr>toy_dealt := toy_dealt st1 + 1\<rparr>)
              | TBoard n \<Rightarrow>
                  (toy_info,
                   st1\<lparr>toy_dealt := toy_dealt st1 + n,
                       toy_board := toy_board st1 @ (case op of DealBoard cs \<Rightarrow> cs | _ \<Rightarrow> [])\<rparr>)
              | TShow p cs \<Rightarrow> (toy_info\<lparr>op_player_index := p, op_hole_cards := cs\<rparr>, st1)
              | TKill \<Rightarrow> (toy_info, st1)
              | TPush i xs \<Rightarrow>
                  (toy_info\<lparr>op_pot_index := i, op_amounts := xs\<rparr>,
                   if length xs = length (toy_bets st) \<and> sum_list xs = toy_pot st
                   then st1\<lparr>toy_pot := 0, toy_bets := map2 (+) (toy_bets st) xs\<rparr>
                   else st1)
              | TPull p \<Rightarrow>
                  (toy_info\<lparr>op_player_index := p\<rparr>,
                   if p < length (toy_bets st) then toy_move p (- (toy_bets st ! p)) st1 else st1)
              | TNoop \<Rightarrow> (toy_info, st1)))"

definition toy_actor :: "toy_state \<Rightarrow> nat option" where
  "toy_actor st = (case toy_script st of TActor p # rest \<Rightarrow> Some p | _ \<Rightarrow> None)"

definition toy_deck :: "card list" where
  "toy_deck = concat (map (\<lambda>r. map (\<lambda>s. [r, s]) ''cdhs'') ''23456789TJQKA'')"

definition toy :: "toy_step list \<Rightarrow> toy_state provider" where
  "toy script =
     \<lparr>create_state = (\<lambda>a sb bb ss. \<lparr>toy_stacks = ss, toy_bets = map (\<lambda>s. 0) ss, toy_pot = 0,
                                      toy_script = script, toy_board = [], toy_dealt = 0\<rparr>),
      status = (\<lambda>st. toy_script st \<noteq> [] \<or> sum_list (toy_bets st) \<noteq> 0 \<or> toy_pot st \<noteq> 0),
      actor_index = toy_actor,
      stacks = toy_stacks,
      bets = toy_bets,
      pots = (\<lambda>st. if toy_pot st = 0 then []
                     else [\<lparr>pot_amount = toy_pot st,
                            pot_player_indices = [0..<length (toy_stacks st)]\<rparr>]),
      raw_pots = (\<lambda>st. [\<lparr>pot_amount = toy_pot st,
                           pot_player_indices = [0..<length (toy_stacks st)]\<rparr>]),
      total_pot_amount = (\<lambda>st. toy_pot st + sum_list (toy_bets st)),
      board_cards = toy_board,
      board_dealing_count = (\<lambda>st. case toy_script st of TBoard n # rest \<Rightarrow> n | _ \<Rightarrow> 0),
      dealable_count = (\<lambda>st. 52 - toy_dealt st),
      checking_or_calling_amount =
        (\<lambda>st. case toy_actor st of None \<Rightarrow> None | Some p \<Rightarrow> Some (toy_call_amount p st)),
      min_completion_betting_or_raising_to_amount =
        (\<lambda>st. case toy_actor st of
                 None \<Rightarrow> None
               | Some p \<Rightarrow> if toy_bets st = [] then None else Some (Max (set (toy_bets st)) + 1)),
      max_completion_betting_or_raising_to_amount =
        (\<lambda>st. case toy_actor st of
                 None \<Rightarrow> None
               | Some p \<Rightarrow>
                   if p < length (toy_stacks st) \<and> p < length (toy_bets st)
                   then Some (toy_bets st ! p + toy_stacks st ! p) else None),
      get_hand = (\<lambda>st i. Some (''High Card'', int i)),
      can = toy_can,
      perform = toy_perform,
      build_shuffled_deck = (\<lambda>seed. toy_deck),
      derive_seed = (\<lambda>base hid label. base + int hid + int (length label)),
      choose_action = (\<lambda>allowed stk rnd.
                         \<lparr>bd_action = (if can_check allowed then CHECK else FOLD),
                          bd_amount_to = None, think_delay_ms = 650\<rparr>)\<rparr>"


section \<open>A three-seat hand with antes, played on the scripted provider\<close>

text \<open>
  Seats 0 (the human), 1 and 2 hold 20 chips each, the ante is 1 and the blinds are 1 and 2.
  The button (seat 2) folds, the small blind (seat 0) calls, the big blind (seat 1) checks;
  the two show down and split the pot of 7 into 4 and 3.
\<close>

definition showcase_config :: TableConfig where
  "showcase_config =
     \<lparr>num_seats = 3, small_blind = 1, big_blind = 2, starting_stack = 20, ante = 1,
      no_rake = True, seed = Some 5\<rparr>"

definition showcase_script :: "toy_step list" where
  "showcase_script =
     [TAnte 0 1, TAnte 1 1, TAnte 2 1, TCollect, TBlind 0 1, TBlind 1 2,
      THole 0, THole 1, THole 2, THole 0, THole 1, THole 2,
      TActor 2, TActor 0, TActor 1, TCollect,
      TBurn, TBoard 3, TBurn, TBoard 1, TBurn, TBoard 1,
      TShow 0 [''2c'', ''2s''], TShow 1 [''2d'', ''3c''],
      TPush 0 [4, 3, 0], TPull 0, TPull 1]"

definition state_after :: "('r, 's) result \<Rightarrow> 's \<Rightarrow> 's" where
  "state_after r d = (case r of Returned x s \<Rightarrow> s | Raised c s \<Rightarrow> s | Fatal e \<Rightarrow> d)"

definition showcase_created :: "toy_state TableRuntime" where
  "showcase_created = create_table ''tbl_showcase'' 0 showcase_config"

definition showcase_started :: "toy_state TableRuntime" where
  "showcase_started =
     (case start_new_hand (toy showcase_script) showcase_created of
        None \<Rightarrow> showcase_created
      | Some r \<Rightarrow> state_after r showcase_created)"

definition showcase_human_turn :: "toy_state TableRuntime" where
  "showcase_human_turn =
     state_after (run_bots_until_human_turn (toy showcase_script) showcase_started)
       showcase_started"

definition showcase_called :: "toy_state TableRuntime" where
  "showcase_called =
     state_after (submit_action (toy showcase_script) showcase_human_turn ''human'' CALL 2
                    ''key-1'' None)
       showcase_human_turn"

definition showcase_finished :: "toy_state TableRuntime" where
  "showcase_finished =
     state_after (run_bots_until_human_turn (toy showcase_script) showcase_called)
       showcase_called"

section \<open>What a sub-step may change\<close>

text \<open>The fields of the table and of the hand that no sub-step of a running hand writes.\<close>

definition table_static :: "'p TableRuntime \<Rightarrow> string \<times> TableConfig \<times> int \<times> int \<times> nat" where
  "table_static t = (table_id t, config t, table_seed t, dealer_button_seat t, next_hand_id t)"

definition hand_static ::
  "'p HandRuntime \<Rightarrow>
     (nat \<times> nat \<times> nat \<times> nat) \<times> (nat list \<times> nat list \<times> (nat \<rightharpoonup> nat))
     \<times> (card list \<times> int \<times> int \<times> int) \<times> int list \<times> (string \<rightharpoonup> SubmitActionResponse)" where
  "hand_static h =
     ((hand_id h, h_dealer_button_seat h, sb_seat h, bb_seat h),
      (active_seats h, player_index_to_seat h, seat_to_player_index h),
      (deck h, deal_seed h, bot_decision_seed h, bot_delay_seed h),
      hand_start_stacks_by_seat h, idempotency_cache h)"

text \<open>
  The events between two states of a table: the later stream extends the earlier one by
  envelopes numbered consecutively from the earlier counter to the later one.
\<close>

definition emits :: "'p TableRuntime \<Rightarrow> 'p TableRuntime \<Rightarrow> bool" where
  "emits t t' =
     (event_seq t \<le> event_seq t'
      \<and> (\<exists>new. emitted t' = emitted t @ new
                \<and> map env_event_seq new = [Suc (event_seq t)..<Suc (event_seq t')]))"

text \<open>The provider states that operations lead to from a given state.\<close>

inductive derived :: "'p provider \<Rightarrow> 'p \<Rightarrow> 'p \<Rightarrow> bool" for P :: "'p provider" and st :: 'p where
  derived_refl: "derived P st st"
| derived_step: "derived P st st1 \<Longrightarrow> derived P st (snd (perform P st1 op))"

text \<open>Two seat lists that differ in the stacks of the given seats at most.\<close>

definition seats_frame :: "nat set \<Rightarrow> seat_row list \<Rightarrow> seat_row list \<Rightarrow> bool" where
  "seats_frame S ss ss' =
     (length ss' = length ss
      \<and> (\<forall>i<length ss. seat_id (ss' ! i) = seat_id (ss ! i)
                         \<and> player_type (ss' ! i) = player_type (ss ! i)
                         \<and> display_name (ss' ! i) = display_name (ss ! i)
                         \<and> (i \<notin> S \<longrightarrow> stack (ss' ! i) = stack (ss ! i))))"

definition footprint ::
  "'p provider \<Rightarrow> 'p TableRuntime \<times> 'p HandRuntime \<Rightarrow> 'p TableRuntime \<times> 'p HandRuntime \<Rightarrow> bool" where
  "footprint P a b =
     (table_static (fst b) = table_static (fst a)
      \<and> hand_static (snd b) = hand_static (snd a)
      \<and> emits (fst a) (fst b)
      \<and> derived P (pokerkit_state (snd a)) (pokerkit_state (snd b))
      \<and> seats_frame (set (player_index_to_seat (snd a))) (seats (fst a)) (seats (fst b))
      \<and> (ended (snd a) \<longrightarrow> ended (snd b)))"

section \<open>A heads-up hand with short stacks, on the scripted provider\<close>

text \<open>
  Two seats with 2 chips each and blinds of 1 and 2: the button posts the small blind and
  has exactly the chip left that a call costs.
\<close>

definition short_stack_config :: TableConfig where
  "short_stack_config =
     \<lparr>num_seats = 2, small_blind = 1, big_blind = 2, starting_stack = 2, ante = 0,
      no_rake = True, seed = Some 5\<rparr>"

definition heads_up_script :: "toy_step list" where
  "heads_up_script =
     [TBlind 1 1, TBlind 0 2, THole 0, THole 1, THole 0, THole 1, TActor 1,
      TCollect, TBurn, TBoard 3, TBurn, TBoard 1, TBurn, TBoard 1,
      TShow 0 [''2c'', ''2h''], TShow 1 [''2d'', ''2s''], TPush 0 [2, 2], TPull 0, TPull 1]"

definition short_stack_started :: "toy_state TableRuntime" where
  "short_stack_started =
     (case start_new_hand (toy heads_up_script) (create_table ''tbl_short'' 0 short_stack_config) of
        None \<Rightarrow> create_table ''tbl_short'' 0 short_stack_config
      | Some r \<Rightarrow> state_after r (create_table ''tbl_short'' 0 short_stack_config))"

text \<open>The current hand of a table of the scripted provider, or a blank hand when it has none.\<close>

definition hand_of :: "toy_state TableRuntime \<Rightarrow> toy_state HandRuntime" where
  "hand_of t =
     (case current_hand t of
        Some h \<Rightarrow> h
      | None \<Rightarrow> new_hand (toy []) t 0 [] 0 0 0 [] [])"

text \<open>The same hand with 10 chips in each stack.\<close>

definition heads_up_config :: TableConfig where
  "heads_up_config =
     \<lparr>num_seats = 2, small_blind = 1, big_blind = 2, starting_stack = 10, ante = 0,
      no_rake = True, seed = Some 5\<rparr>"

definition heads_up_started :: "toy_state TableRuntime" where
  "heads_up_started =
     (case start_new_hand (toy heads_up_script) (create_table ''tbl_heads_up'' 0 heads_up_config) of
        None \<Rightarrow> create_table ''tbl_heads_up'' 0 heads_up_config
      | Some r \<Rightarrow> state_after r (create_table ''tbl_heads_up'' 0 heads_up_config))"

section \<open>The history of the three-seat hand\<close>

text \<open>The hand history that the engine stores for the three-seat hand above.\<close>

definition showcase_history :: HandHistory where
  "showcase_history =
  \<lparr>hh_hand_id = 1, hh_table_id = ''tbl_showcase'',
     hh_config =
       \<lparr>num_seats = 3, small_blind = 1, big_blind = 2, starting_stack = 20,
          ante = 1, no_rake = True, seed = Some 5\<rparr>,
     initial_stacks_by_seat = [20, 20, 20],
     final_stacks_by_seat = [21, 20, 19], hh_active_seats = [0, 1, 2],
     hh_player_index_to_seat = [0, 1, 2], hh_dealer_button_seat = 2,
     hh_sb_seat = 0, hh_bb_seat = 1, hh_deal_seed = 10,
     hh_bot_decision_seed = 18, hh_bot_delay_seed = 15,
     hole_cards_by_seat =
       [[Some ''2c'', Some ''2s''], [Some ''2d'', Some ''3c''],
        [Some ''2h'', Some ''3d'']],
     hh_board_cards = [''3s'', ''4c'', ''4d'', ''4s'', ''5d''],
     actions =
       [\<lparr>step_index = 1, row_action_seq = 1, row_seat_id = 2,
           row_action = FOLD, row_amount_to = None, row_street = PREFLOP\<rparr>,
        \<lparr>step_index = 2, row_action_seq = 2, row_seat_id = 0,
           row_action = CALL, row_amount_to = Some 1, row_street = PREFLOP\<rparr>,
        \<lparr>step_index = 3, row_action_seq = 3, row_seat_id = 1,
           row_action = CHECK, row_amount_to = None, row_street = PREFLOP\<rparr>],
     pot_breakdown =
       [\<lparr>pot_id = 0, amount = 7, winners = [(0, 4), (1, 3)],
           eligible_seats = [0, 1, 2], odd_chip_award = Some (0, 1)\<rparr>],
     showdown =
       Some
        \<lparr>sd_winners =
           [\<lparr>sd_seat_id = 0, sd_player_name = ''You'',
               sd_hole_cards = [''2c'', ''2s''],
               best_hand_name = ''High Card'', hand_rank_value = 0,
               sd_amount_won = 4\<rparr>,
            \<lparr>sd_seat_id = 1, sd_player_name = ''Bot 1'',
               sd_hole_cards = [''2d'', ''3c''],
               best_hand_name = ''High Card'', hand_rank_value = 1,
               sd_amount_won = 3\<rparr>],
           sd_losers = []\<rparr>,
     hh_hand_end_reason = ''showdown'', event_count = 23,
     events =
       [\<lparr>env_table_id = ''tbl_showcase'', env_hand_id = 1,
           env_event_seq = 1, env_event_type = HAND_START,
           env_payload = HandStartPayload 2 0 1 [20, 20, 20]\<rparr>,
        \<lparr>env_table_id = ''tbl_showcase'', env_hand_id = 1,
           env_event_seq = 2, env_event_type = STREET_END_COLLECT,
           env_payload = StreetEndCollectPayload [1, 1, 1]\<rparr>,
        \<lparr>env_table_id = ''tbl_showcase'', env_hand_id = 1,
           env_event_seq = 3, env_event_type = POST_BLIND,
           env_payload = PostBlindPayload 0 1\<rparr>,
        \<lparr>env_table_id = ''tbl_showcase'', env_hand_id = 1,
           env_event_seq = 4, env_event_type = POST_BLIND,
           env_payload = PostBlindPayload 1 2\<rparr>,
        \<lparr>env_table_id = ''tbl_showcase'', env_hand_id = 1,
           env_event_seq = 5, env_event_type = DEAL_CARD,
           env_payload = DealCardPayload 0 0 (Some ''2c'')\<rparr>,
        \<lparr>env_table_id = ''tbl_showcase'', env_hand_id = 1,
           env_event_seq = 6, env_event_type = DEAL_CARD,
           env_payload = DealCardPayload 1 0 None\<rparr>,
        \<lparr>env_table_id = ''tbl_showcase'', env_hand_id = 1,
           env_event_seq = 7, env_event_type = DEAL_CARD,
           env_payload = DealCardPayload 2 0 None\<rparr>,
        \<lparr>env_table_id = ''tbl_showcase'', env_hand_id = 1,
           env_event_seq = 8, env_event_type = DEAL_CARD,
           env_payload = DealCardPayload 0 1 (Some ''2s'')\<rparr>,
        \<lparr>env_table_id = ''tbl_showcase'', env_hand_id = 1,
           env_event_seq = 9, env_event_type = DEAL_CARD,
           env_payload = DealCardPayload 1 1 None\<rparr>,
        \<lparr>env_table_id = ''tbl_showcase'', env_hand_id = 1,
           env_event_seq = 10, env_event_type = DEAL_CARD,
           env_payload = DealCardPayload 2 1 None\<rparr>,
        \<lparr>env_table_id = ''tbl_showcase'', env_hand_id = 1,
           env_event_seq = 11, env_event_type = ACTION,
           env_payload = ActionPayload 2 FOLD None (Some 650)\<rparr>,
        \<lparr>env_table_id = ''tbl_showcase'', env_hand_id = 1,
           env_event_seq = 12, env_event_type = ACTION,
           env_payload = ActionPayload 0 CALL (Some 1) None\<rparr>,
        \<lparr>env_table_id = ''tbl_showcase'', env_hand_id = 1,
           env_event_seq = 13, env_event_type = ACTION,
           env_payload = ActionPayload 1 CHECK None (Some 650)\<rparr>,
        \<lparr>env_table_id = ''tbl_showcase'', env_hand_id = 1,
           env_event_seq = 14, env_event_type = STREET_END_COLLECT,
           env_payload = StreetEndCollectPayload [2, 2, 0]\<rparr>,
        \<lparr>env_table_id = ''tbl_showcase'', env_hand_id = 1,
           env_event_seq = 15, env_event_type = BOARD_REVEAL,
           env_payload = BoardRevealPayload FLOP [''3s'', ''4c'', ''4d'']\<rparr>,
        \<lparr>env_table_id = ''tbl_showcase'', env_hand_id = 1,
           env_event_seq = 16, env_event_type = BOARD_REVEAL,
           env_payload = BoardRevealPayload TURN [''4s'']\<rparr>,
        \<lparr>env_table_id = ''tbl_showcase'', env_hand_id = 1,
           env_event_seq = 17, env_event_type = BOARD_REVEAL,
           env_payload = BoardRevealPayload RIVER [''5d'']\<rparr>,
        \<lparr>env_table_id = ''tbl_showcase'', env_hand_id = 1,
           env_event_seq = 18, env_event_type = SHOWDOWN_REVEAL,
           env_payload = ShowdownRevealPayload 0 [''2c'', ''2s'']\<rparr>,
        \<lparr>env_table_id = ''tbl_showcase'', env_hand_id = 1,
           env_event_seq = 19, env_event_type = SHOWDOWN_REVEAL,
           env_payload = ShowdownRevealPayload 1 [''2d'', ''3c'']\<rparr>,
        \<lparr>env_table_id = ''tbl_showcase'', env_hand_id = 1,
           env_event_seq = 20, env_event_type = POT_AWARD,
           env_payload =
             PotAwardPayload
              \<lparr>pot_id = 0, amount = 7, winners = [(0, 4), (1, 3)],
                 eligible_seats = [0, 1, 2], odd_chip_award = Some (0, 1)\<rparr>\<rparr>,
        \<lparr>env_table_id = ''tbl_showcase'', env_hand_id = 1,
           env_event_seq = 21, env_event_type = STACK_UPDATE,
           env_payload = StackUpdatePayload 0 21\<rparr>,
        \<lparr>env_table_id = ''tbl_showcase'', env_hand_id = 1,
           env_event_seq = 22, env_event_type = STACK_UPDATE,
           env_payload = StackUpdatePayload 1 20\<rparr>,
        \<lparr>env_table_id = ''tbl_showcase'', env_hand_id = 1,
           env_event_seq = 23, env_event_type = HAND_END,
           env_payload = HandEndPayload ''showdown'' [21, 20, 19]\<rparr>]\<rparr>"

section \<open>Properties of the engine\<close>

subsection \<open>Composing footprints\<close>

lemma emits_refl: "emits t t"
  by (simp add: emits_def)

lemma emits_trans: "emits a b \<Longrightarrow> emits b c \<Longrightarrow> emits a c"
proof -
  assume ab: "emits a b" and bc: "emits b c"
  from ab obtain n1 where 1: "event_seq a \<le> event_seq b" "emitted b = emitted a @ n1"
    "map env_event_seq n1 = [Suc (event_seq a)..<Suc (event_seq b)]" by (auto simp: emits_def)
  from bc obtain n2 where 2: "event_seq b \<le> event_seq c" "emitted c = emitted b @ n2"
    "map env_event_seq n2 = [Suc (event_seq b)..<Suc (event_seq c)]" by (auto simp: emits_def)
  have "[Suc (event_seq a)..<Suc (event_seq c)]
          = [Suc (event_seq a)..<Suc (event_seq b)] @ [Suc (event_seq b)..<Suc (event_seq c)]"
    using 1(1) 2(1) by (metis Suc_le_mono le_Suc_ex upt_add_eq_append)
  then have "map env_event_seq (n1 @ n2) = [Suc (event_seq a)..<Suc (event_seq c)]"
    using 1(3) 2(3) by simp
  moreover have "emitted c = emitted a @ (n1 @ n2)" using 1(2) 2(2) by simp
  ultimately show ?thesis using 1(1) 2(1) unfolding emits_def by (metis le_trans)
qed

lemma derived_trans: "derived P a b \<Longrightarrow> derived P b c \<Longrightarrow> derived P a c"
proof -
  assume ab: "derived P a b" and bc: "derived P b c"
  from bc ab show ?thesis
    by (induction rule: derived.induct) (auto intro: derived_step)
qed

lemma seats_frame_refl: "seats_frame S ss ss"
  by (simp add: seats_frame_def)

lemma seats_frame_trans: "seats_frame S a b \<Longrightarrow> seats_frame S b c \<Longrightarrow> seats_frame S a c"
  by (auto simp: seats_frame_def)

lemma footprint_refl: "footprint P a a"
  by (simp add: footprint_def emits_refl derived_refl seats_frame_refl)

lemma footprint_trans: "footprint P a b \<Longrightarrow> footprint P b c \<Longrightarrow> footprint P a c"
proof -
  assume ab: "footprint P a b" and bc: "footprint P b c"
  have p: "player_index_to_seat (snd b) = player_index_to_seat (snd a)"
    using ab by (simp add: footprint_def hand_static_def)
  have "seats_frame (set (player_index_to_seat (snd a))) (seats (fst a)) (seats (fst c))"
    using ab bc p by (auto simp: footprint_def intro: seats_frame_trans)
  moreover have "emits (fst a) (fst c)"
    using ab bc by (auto simp: footprint_def intro: emits_trans)
  moreover have "derived P (pokerkit_state (snd a)) (pokerkit_state (snd c))"
    using ab bc by (auto simp: footprint_def intro: derived_trans)
  ultimately show ?thesis using ab bc by (simp add: footprint_def)
qed

subsection \<open>The footprint of every sub-step\<close>

lemma emits_emit_event: "emits t (fst (emit_event t h et pl))"
  by (simp add: emits_def emit_event_def Let_def)

lemma fp_emit:
  assumes "footprint P a (t, h)"
  shows "footprint P a (emit_event t h et pl)"
proof -
  have "footprint P (t, h) (emit_event t h et pl)"
    using emits_emit_event[of t h et pl]
    by (simp add: footprint_def table_static_def hand_static_def emit_event_def Let_def
                  derived_refl seats_frame_refl)
  then show ?thesis using assms footprint_trans by blast
qed

lemma fp_hand:
  assumes "footprint P a (t, h)"
    and "hand_static h' = hand_static h"
    and "pokerkit_state h' = pokerkit_state h
         \<or> (\<exists>op. pokerkit_state h' = snd (perform P (pokerkit_state h) op))"
    and "ended h \<longrightarrow> ended h'"
  shows "footprint P a (t, h')"
proof -
  have "derived P (pokerkit_state h) (pokerkit_state h')"
    using assms(3) by (auto intro: derived_refl derived_step[OF derived_refl])
  then have "footprint P (t, h) (t, h')"
    using assms(2,4) by (simp add: footprint_def emits_refl seats_frame_refl)
  then show ?thesis using assms(1) footprint_trans by blast
qed

lemma fp_commit:
  assumes "footprint P a (t, h)" and "commit_chips h s x = Inr h'"
  shows "footprint P a (t, h')"
  using assms(2)
  by (intro fp_hand[OF assms(1)]) (auto simp: commit_chips_def hand_static_def split: if_splits)

lemma sync_stacks_frame:
  "sync_stacks ss xs i ps = Inr ss' \<Longrightarrow> seats_frame (set ps) ss ss'"
proof (induction ps arbitrary: ss i)
  case Nil
  then show ?case by (simp add: seats_frame_refl)
next
  case (Cons s ps)
  from Cons.prems have
    r: "sync_stacks (ss[s := (ss ! s)\<lparr>stack := xs ! i\<rparr>]) xs (Suc i) ps = Inr ss'"
    and l: "s < length ss"
    by (auto split: if_splits)
  have "seats_frame (set (s # ps)) ss (ss[s := (ss ! s)\<lparr>stack := xs ! i\<rparr>])"
    using l by (auto simp: seats_frame_def nth_list_update)
  moreover have "seats_frame (set (s # ps)) (ss[s := (ss ! s)\<lparr>stack := xs ! i\<rparr>]) ss'"
    using Cons.IH[OF r] by (auto simp: seats_frame_def)
  ultimately show ?case by (auto simp: seats_frame_def)
qed

lemma fp_sync:
  assumes "footprint P a (t, h)" and "sync_table_stacks_from_state P t st h1 = Inr t1"
    and "player_index_to_seat h1 = player_index_to_seat h"
  shows "footprint P a (t1, h)"
proof -
  from assms(2) obtain ss where s: "sync_stacks (seats t) (stacks P st) 0 (player_index_to_seat h1) = Inr ss"
    and t1: "t1 = t\<lparr>seats := ss\<rparr>"
    by (auto simp: sync_table_stacks_from_state_def split: sum.splits)
  have "footprint P (t, h) (t1, h)"
    using sync_stacks_frame[OF s] assms(3) t1
    by (simp add: footprint_def table_static_def emits_def derived_refl)
  then show ?thesis using assms(1) footprint_trans by blast
qed

lemma fp_table:
  assumes "footprint P a (t, h)"
    and "table_static t' = table_static t" and "seats t' = seats t"
    and "event_seq t' = event_seq t" and "emitted t' = emitted t"
  shows "footprint P a (t', h)"
proof -
  have "footprint P (t, h) (t', h)"
    using assms(2-5) by (simp add: footprint_def emits_def derived_refl seats_frame_refl)
  then show ?thesis using assms(1) footprint_trans by blast
qed

lemma fp_refresh_outcome:
  assumes "footprint P a (t, h)" and "refresh_outcome t = Inr t'"
  shows "footprint P a (t', h)"
  using assms(2)
  by (intro fp_table[OF assms(1)]) (auto simp: refresh_outcome_def table_static_def split: list.splits)

lemma fp_next_card:
  assumes "footprint P a (t, h)" and "next_card h = Inr (c, h')"
  shows "footprint P a (t, h')"
  using assms(2)
  by (intro fp_hand[OF assms(1)]) (auto simp: next_card_def hand_static_def split: if_splits)

lemma fp_next_cards:
  assumes "footprint P a (t, h)" and "next_cards h n = Inr (cs, h')"
  shows "footprint P a (t, h')"
  using assms(2)
  by (intro fp_hand[OF assms(1)]) (auto simp: next_cards_def hand_static_def split: if_splits)

lemma fp_perform:
  assumes "footprint P a (t, h)"
  shows "footprint P a (t, h\<lparr>pokerkit_state := snd (perform P (pokerkit_state h) op)\<rparr>)"
  by (intro fp_hand[OF assms]) (auto simp: hand_static_def)


lemma fp_post_single_blind:
  assumes "footprint P a (t, h)" and "post_single_blind_locked P t h = Inr th"
  shows "footprint P a th"
  using assms(2)
  by (auto simp: post_single_blind_locked_def Let_def split_beta seat_of_player_def
           split: sum.splits if_splits
           intro!: fp_emit fp_commit[OF fp_perform[OF assms(1)]])


lemma fp_rows:
  "footprint P a (t, h) \<Longrightarrow> footprint P a (t, h\<lparr>showdown_rows_by_seat := x\<rparr>)"
  by (erule fp_hand) (auto simp: hand_static_def)

lemma fp_revealed:
  "footprint P a (t, h) \<Longrightarrow> footprint P a (t, h\<lparr>showdown_revealed_seats := x\<rparr>)"
  by (erule fp_hand) (auto simp: hand_static_def)

lemma fp_pot_awards:
  "footprint P a (t, h) \<Longrightarrow> footprint P a (t, h\<lparr>pot_awards := x\<rparr>)"
  by (erule fp_hand) (auto simp: hand_static_def)

lemma fp_committed:
  "footprint P a (t, h) \<Longrightarrow> footprint P a (t, h\<lparr>committed_this_street_by_seat := x\<rparr>)"
  by (erule fp_hand) (auto simp: hand_static_def)

lemma fp_folded:
  "footprint P a (t, h) \<Longrightarrow> footprint P a (t, h\<lparr>folded_seats := x\<rparr>)"
  by (erule fp_hand) (auto simp: hand_static_def)

lemma fp_all_in:
  "footprint P a (t, h) \<Longrightarrow> footprint P a (t, h\<lparr>all_in_seats := x\<rparr>)"
  by (erule fp_hand) (auto simp: hand_static_def)

lemma fp_action_seq:
  "footprint P a (t, h) \<Longrightarrow> footprint P a (t, h\<lparr>action_seq := x\<rparr>)"
  by (erule fp_hand) (auto simp: hand_static_def)

lemma fp_next_step_index:
  "footprint P a (t, h) \<Longrightarrow> footprint P a (t, h\<lparr>next_step_index := x\<rparr>)"
  by (erule fp_hand) (auto simp: hand_static_def)

lemma fp_action_log:
  "footprint P a (t, h) \<Longrightarrow> footprint P a (t, h\<lparr>action_log_internal := x\<rparr>)"
  by (erule fp_hand) (auto simp: hand_static_def)

lemma fp_ended:
  "footprint P a (t, h) \<Longrightarrow> footprint P a (t, h\<lparr>ended := True\<rparr>)"
  by (erule fp_hand) (auto simp: hand_static_def)

lemma fp_reason:
  "footprint P a (t, h) \<Longrightarrow> footprint P a (t, h\<lparr>hand_end_reason := x\<rparr>)"
  by (erule fp_hand) (auto simp: hand_static_def)

lemma fp_completed:
  "footprint P a (t, h) \<Longrightarrow> footprint P a (t\<lparr>completed_hands := x\<rparr>, h)"
  by (erule fp_table) (auto simp: table_static_def)

lemmas fp_fields = fp_rows fp_revealed fp_pot_awards fp_committed fp_folded fp_all_in
  fp_action_seq fp_next_step_index fp_action_log fp_ended fp_reason fp_completed

lemma fp_deal_single:
  assumes "footprint P a (t, h)" and "deal_single_hole_card_locked P t h = Inr th"
  shows "footprint P a th"
proof -
  from assms(2) obtain c h1 where nc: "next_card h = Inr (c, h1)"
    by (auto simp: deal_single_hole_card_locked_def split: sum.splits)
  have 1: "footprint P a (t, h1)" using fp_next_card[OF assms(1) nc] .
  show ?thesis
    using assms(2) nc
    by (auto simp: deal_single_hole_card_locked_def Let_def split_beta seat_of_player_def
             split: sum.splits if_splits
             intro!: fp_emit fp_rows fp_perform 1)
qed

lemma fp_post_ante:
  assumes "footprint P a (t, h)" and "advance_post_ante P h = Inr h'"
  shows "footprint P a (t, h')"
  using assms(2)
  by (auto simp: advance_post_ante_def Let_def split_beta
           split: sum.splits if_splits
           intro!: fp_perform[OF assms(1)] fp_commit[OF fp_perform[OF assms(1)]])

lemma fp_collect_bets:
  assumes "footprint P a (t, h)"
  shows "footprint P a (advance_collect_bets P t h)"
proof -
  have "footprint P a (t, h\<lparr>pokerkit_state := snd (perform P (pokerkit_state h) CollectBets),
                           committed_this_street_by_seat :=
                             map (\<lambda>x. 0) (committed_this_street_by_seat h)\<rparr>)"
    by (intro fp_hand[OF assms]) (auto simp: hand_static_def)
  then show ?thesis
    by (auto simp: advance_collect_bets_def Let_def split_beta intro!: fp_emit)
qed

lemma fp_burn_card:
  assumes "footprint P a (t, h)" and "advance_burn_card P h = Inr h'"
  shows "footprint P a (t, h')"
proof -
  from assms(2) obtain c h1 where nc: "next_card h = Inr (c, h1)"
    by (auto simp: advance_burn_card_def split: sum.splits)
  have 1: "footprint P a (t, h1)" using fp_next_card[OF assms(1) nc] .
  show ?thesis
    using assms(2) nc by (auto simp: advance_burn_card_def intro!: fp_perform 1)
qed

lemma fp_deal_board:
  assumes "footprint P a (t, h)" and "advance_deal_board P t h = Inr th"
  shows "footprint P a th"
proof -
  from assms(2) obtain cs h1 where
    nc: "next_cards h (board_dealing_count P (pokerkit_state h)) = Inr (cs, h1)"
    by (auto simp: advance_deal_board_def split: sum.splits)
  have 1: "footprint P a (t, h1)" using fp_next_cards[OF assms(1) nc] .
  show ?thesis
    using assms(2) nc
    by (auto simp: advance_deal_board_def Let_def intro!: fp_emit fp_perform 1)
qed

lemma fp_show_or_muck:
  assumes "footprint P a (t, h)" and "advance_show_or_muck P t h = Inr th"
  shows "footprint P a th"
proof -
  obtain op st where ps: "perform P (pokerkit_state h) (ShowOrMuckHoleCards True) = (op, st)"
    by (cases "perform P (pokerkit_state h) (ShowOrMuckHoleCards True)")
  have 1: "footprint P a (t, h\<lparr>pokerkit_state := st\<rparr>)"
    using fp_perform[OF assms(1), of "ShowOrMuckHoleCards True"] ps by simp
  show ?thesis
    using assms(2) ps
    by (auto simp: advance_show_or_muck_def Let_def
             split: sum.splits option.splits
             intro!: fp_emit fp_rows fp_revealed 1)
qed

lemma fp_push_chips:
  assumes "footprint P a (t, h)" and "advance_push_chips P t h = Inr th"
  shows "footprint P a th"
proof -
  obtain op st where ps: "perform P (pokerkit_state h) PushChips = (op, st)"
    by (cases "perform P (pokerkit_state h) PushChips")
  have 1: "footprint P a (t, h\<lparr>pokerkit_state := st\<rparr>)"
    using fp_perform[OF assms(1), of PushChips] ps by simp
  show ?thesis
    using assms(2) ps
    by (auto simp: advance_push_chips_def Let_def
             split: sum.splits if_splits
             intro!: fp_emit fp_rows fp_pot_awards 1)
qed

lemma fp_pull_chips:
  assumes "footprint P a (t, h)" and "advance_pull_chips P t h = Inr th"
  shows "footprint P a th"
proof -
  obtain op st where ps: "perform P (pokerkit_state h) PullChips = (op, st)"
    by (cases "perform P (pokerkit_state h) PullChips")
  have 1: "footprint P a (t, h\<lparr>pokerkit_state := st\<rparr>)"
    using fp_perform[OF assms(1), of PullChips] ps by simp
  show ?thesis
    using assms(2) ps
    by (auto simp: advance_pull_chips_def Let_def
             split: sum.splits if_splits
             intro!: fp_emit fp_sync[OF 1])
qed


lemma fp_complete_hand:
  assumes "footprint P a (t, h)" and "complete_hand_locked P t h = Inr th"
  shows "footprint P a th"
proof -
  let ?h1 = "h\<lparr>ended := True,
               hand_end_reason := (if showdown_revealed_seats h \<noteq> {} then ''showdown''
                                   else ''all_folded'')\<rparr>"
  have 1: "footprint P a (t, ?h1)" by (intro fp_fields assms(1))
  from assms(2) obtain t1 where
    s: "sync_table_stacks_from_state P t (pokerkit_state h) ?h1 = Inr t1"
    by (auto simp: complete_hand_locked_def Let_def split: sum.splits)
  have 2: "footprint P a (t1, ?h1)" using fp_sync[OF 1 s] by simp
  have 3: "footprint P a (fst (emit_event t1 ?h1 et pl), snd (emit_event t1 ?h1 et pl))" for et pl
    using fp_emit[OF 2] by simp
  have 4: "footprint P a (t4, snd (emit_event t1 ?h1 et pl))"
    if "refresh_outcome ((fst (emit_event t1 ?h1 et pl))\<lparr>completed_hands := x\<rparr>) = Inr t4"
    for et pl x t4
    using fp_refresh_outcome[OF fp_completed[OF 3] that] .
  show ?thesis
    using assms(2) s 4
    by (auto simp: complete_hand_locked_def Let_def split_beta
             split: sum.splits if_splits intro!: fp_emit)
qed

lemma fp_advance_finish:
  assumes "footprint P a (t, h)" and "advance_finish P t h = Inr th"
  shows "footprint P a th"
proof -
  from assms(2) obtain t1 where
    s: "sync_table_stacks_from_state P t (pokerkit_state h) h = Inr t1"
    by (auto simp: advance_finish_def split: sum.splits)
  have 1: "footprint P a (t1, h)" using fp_sync[OF assms(1) s] by simp
  show ?thesis
    using assms(2) s fp_complete_hand[OF 1] 1
    by (auto simp: advance_finish_def split: if_splits)
qed

lemma fp_advance_step:
  assumes "footprint P a (t, h)"
    and "advance_step P t h = Continue th \<or> advance_step P t h = Break th
         \<or> advance_step P t h = Return th"
  shows "footprint P a th"
  using assms(2) assms(1)
    fp_post_ante[OF assms(1)] fp_post_single_blind[OF assms(1)] fp_deal_single[OF assms(1)]
    fp_sync[OF assms(1), of "pokerkit_state h" h] fp_collect_bets[OF assms(1)]
    fp_perform[OF assms(1)] fp_burn_card[OF assms(1)] fp_deal_board[OF assms(1)]
    fp_show_or_muck[OF assms(1)] fp_push_chips[OF assms(1)] fp_pull_chips[OF assms(1)]
  by (auto simp: advance_step_def Let_def split: if_splits sum.splits)

lemma fp_advance_loop:
  "footprint P a (t, h) \<Longrightarrow> advance_loop P k t h = Inr th \<Longrightarrow> footprint P a th"
proof (induction k arbitrary: t h)
  case 0
  then show ?case by simp
next
  case (Suc k)
  show ?case
  proof (cases "advance_step P t h")
    case (Continue th1)
    then have "footprint P a th1" using fp_advance_step[OF Suc.prems(1)] by blast
    then show ?thesis using Suc.IH[of "fst th1" "snd th1"] Suc.prems(2) Continue
      by (cases th1) simp
  next
    case (Break th1)
    then have "footprint P a th1" using fp_advance_step[OF Suc.prems(1)] by blast
    then show ?thesis using fp_advance_finish[of P a "fst th1" "snd th1"] Suc.prems(2) Break
      by (cases th1) simp
  next
    case (Return th1)
    then have "footprint P a th1" using fp_advance_step[OF Suc.prems(1)] by blast
    then show ?thesis using Suc.prems(2) Return by simp
  next
    case (Raise e)
    then show ?thesis using Suc.prems(2) by simp
  qed
qed

lemma fp_advance_locked:
  "footprint P a (t, h) \<Longrightarrow> advance_locked P t h = Inr th \<Longrightarrow> footprint P a th"
  unfolding advance_locked_def by (rule fp_advance_loop)

lemma fp_log_player_action:
  assumes "footprint P a (t, h)" and "log_player_action P t h s act amt d = Returned u th"
  shows "footprint P a th"
proof -
  let ?h2 = "h\<lparr>action_seq := action_seq h + 1,
                next_step_index := next_step_index h + 1,
                action_log_internal :=
                  action_log_internal h @
                  [\<lparr>step_index = next_step_index h, row_action_seq = action_seq h + 1,
                    row_seat_id = s, row_action = act, row_amount_to = amt,
                    row_street = street_from_state P (pokerkit_state h)\<rparr>]\<rparr>"
  have 1: "footprint P a (t, ?h2)" by (intro fp_fields assms(1))
  from assms(2) obtain t1 where
    sy: "sync_table_stacks_from_state P t (pokerkit_state h) ?h2 = Inr t1"
    and th: "th = emit_event t1 ?h2 ACTION (ActionPayload s act amt d)"
    by (auto simp: log_player_action_def Let_def split: sum.splits)
  show ?thesis using fp_emit[OF fp_sync[OF 1 sy]] th by simp
qed


lemma fp_apply_player_action:
  assumes "footprint P a (t, h)" and "apply_player_action P t h s act amt d = Returned u th"
  shows "footprint P a th"
proof -
  have l: "footprint P a th"
    if "log_player_action P t h' s act' amt' d = Returned () th" and "footprint P a (t, h')"
    for h' act' amt'
    using fp_log_player_action[OF that(2) that(1)] .
  have c: "footprint P a (t, h'')"
    if "commit_chips (h\<lparr>pokerkit_state := snd (perform P (pokerkit_state h) op)\<rparr>) s x = Inr h''"
    for op x h''
    using fp_commit[OF fp_perform[OF assms(1)] that] .
  have c2: "footprint P a (t, h'')"
    if "commit_chips
          (h\<lparr>pokerkit_state := snd (perform P (pokerkit_state h) op),
             all_in_seats := y\<rparr>) s x = Inr h''"
    for op x y h''
    using fp_commit[OF fp_all_in[OF fp_perform[OF assms(1)]] that] .
  show ?thesis
    using assms(2)
    by (auto simp: apply_player_action_def Let_def
             split: sum.splits if_splits option.splits
             elim!: l intro!: fp_all_in fp_folded fp_perform assms(1) dest: c c2)
qed

lemma fp_post_blinds:
  assumes "post_blinds_locked P t h = Some r"
  shows "footprint P a (t, h) \<Longrightarrow> r = Inr th \<Longrightarrow> footprint P a th"
  using assms
proof (induction arbitrary: th rule: post_blinds_locked.raw_induct[rotated 1, consumes 1])
  case (1 post_blinds P t h r)
  show ?case
  proof (cases "can P (pokerkit_state h) CanPostBlindOrStraddle")
    case False
    then show ?thesis using 1(2-) by auto
  next
    case True
    show ?thesis
    proof (cases "post_single_blind_locked P t h")
      case (Inl e)
      then show ?thesis using 1(2-) True by auto
    next
      case (Inr th1)
      have f: "footprint P a (fst th1, snd th1)"
        using fp_post_single_blind[OF _ Inr] 1(2-) by auto
      have "post_blinds P (fst th1) (snd th1) = Some r"
        using 1(2-) True Inr by (auto simp: split_beta)
      then show ?thesis using 1(1)[OF _ f] 1(2-) by auto
    qed
  qed
qed

lemma fp_deal_hole_cards:
  assumes "deal_hole_cards_locked P t h = Some r"
  shows "footprint P a (t, h) \<Longrightarrow> r = Inr th \<Longrightarrow> footprint P a th"
  using assms
proof (induction arbitrary: th rule: deal_hole_cards_locked.raw_induct[rotated 1, consumes 1])
  case (1 deal_holes P t h r)
  show ?case
  proof (cases "can P (pokerkit_state h) CanDealHole")
    case False
    then show ?thesis using 1(2-) by auto
  next
    case True
    show ?thesis
    proof (cases "deal_single_hole_card_locked P t h")
      case (Inl e)
      then show ?thesis using 1(2-) True by auto
    next
      case (Inr th1)
      have f: "footprint P a (fst th1, snd th1)"
        using fp_deal_single[OF _ Inr] 1(2-) by auto
      have "deal_holes P (fst th1) (snd th1) = Some r"
        using 1(2-) True Inr by (auto simp: split_beta)
      then show ?thesis using 1(1)[OF _ f] 1(2-) by auto
    qed
  qed
qed

subsection \<open>Normalisation of the action log\<close>

lemma log_player_action_row:
  assumes "log_player_action P t h s a amt delay = Returned u (t', h')"
  shows "\<exists>row. action_log_internal h' = action_log_internal h @ [row]
           \<and> row_seat_id row = s \<and> row_action row = a \<and> row_amount_to row = amt"
  using assms
  by (auto simp: log_player_action_def emit_event_def Let_def split: sum.splits)

lemma commit_chips_log:
  "commit_chips h s x = Inr h' \<Longrightarrow> action_log_internal h' = action_log_internal h"
  by (auto simp: commit_chips_def split: if_splits)

text \<open>
  C6. When \<open>_apply_player_action\<close> accepts a check or call whose call amount is positive
  and equals the stack the table holds for the acting seat, the row it appends to the action
  log is an all-in; and when it accepts a bet or raise whose target is the provider's
  maximum raise-to amount at that moment, the row it appends is an all-in.
\<close>

theorem action_log_normalization:
  assumes "apply_player_action P t h s act amount_to delay = Returned u (t', h')"
  shows "((act = CHECK \<or> act = CALL)
            \<and> 0 < amount_or_zero (checking_or_calling_amount P (pokerkit_state h))
            \<and> stack (seats t ! s) = amount_or_zero (checking_or_calling_amount P (pokerkit_state h))
          \<longrightarrow> (\<exists>row. action_log_internal h' = action_log_internal h @ [row]
                     \<and> row_seat_id row = s \<and> row_action row = ALL_IN))
       \<and> ((act = BET \<or> act = RAISE)
            \<and> amount_to = max_completion_betting_or_raising_to_amount P (pokerkit_state h)
          \<longrightarrow> (\<exists>row. action_log_internal h' = action_log_internal h @ [row]
                     \<and> row_seat_id row = s \<and> row_action row = ALL_IN))"
proof (intro conjI impI)
  assume a: "(act = CHECK \<or> act = CALL)
            \<and> 0 < amount_or_zero (checking_or_calling_amount P (pokerkit_state h))
            \<and> stack (seats t ! s) = amount_or_zero (checking_or_calling_amount P (pokerkit_state h))"
  from assms a obtain h0 where
    "log_player_action P t h0 s ALL_IN
       (Some (amount_or_zero (checking_or_calling_amount P (pokerkit_state h)))) delay
       = Returned u (t', h')"
    "action_log_internal h0 = action_log_internal h"
    by (auto simp: apply_player_action_def Let_def split: sum.splits if_splits
             dest!: commit_chips_log)
  then show "\<exists>row. action_log_internal h' = action_log_internal h @ [row]
                     \<and> row_seat_id row = s \<and> row_action row = ALL_IN"
    using log_player_action_row by fastforce
next
  assume a: "(act = BET \<or> act = RAISE)
            \<and> amount_to = max_completion_betting_or_raising_to_amount P (pokerkit_state h)"
  from assms a obtain h0 where
    "log_player_action P t h0 s ALL_IN amount_to delay = Returned u (t', h')"
    "action_log_internal h0 = action_log_internal h"
    by (auto simp: apply_player_action_def Let_def split: sum.splits if_splits option.splits
             dest!: commit_chips_log)
  then show "\<exists>row. action_log_internal h' = action_log_internal h @ [row]
                     \<and> row_seat_id row = s \<and> row_action row = ALL_IN"
    using log_player_action_row by fastforce
qed

lemma short_call_accepted:
  "(case apply_player_action (toy heads_up_script) short_stack_started
           (hand_of short_stack_started) 1 CALL None None of
      Returned u th \<Rightarrow> True | Raised c th \<Rightarrow> False | Fatal e \<Rightarrow> False)"
  by code_simp

lemma short_call_amount:
  "0 < amount_or_zero (checking_or_calling_amount (toy heads_up_script)
                         (pokerkit_state (hand_of short_stack_started)))
   \<and> stack (seats short_stack_started ! 1)
       = amount_or_zero (checking_or_calling_amount (toy heads_up_script)
                           (pokerkit_state (hand_of short_stack_started)))"
  by code_simp

lemma max_raise_accepted:
  "(case apply_player_action (toy heads_up_script) heads_up_started
           (hand_of heads_up_started) 1 RAISE (Some 10) None of
      Returned u th \<Rightarrow> True | Raised c th \<Rightarrow> False | Fatal e \<Rightarrow> False)"
  by code_simp

lemma max_raise_amount:
  "Some 10 = max_completion_betting_or_raising_to_amount (toy heads_up_script)
               (pokerkit_state (hand_of heads_up_started))"
  by code_simp

theorem action_log_normalization_witness:
  "(\<exists>u t' h'.
      apply_player_action (toy heads_up_script) short_stack_started
        (hand_of short_stack_started) 1 CALL None None = Returned u (t', h')
      \<and> 0 < amount_or_zero (checking_or_calling_amount (toy heads_up_script)
                              (pokerkit_state (hand_of short_stack_started)))
      \<and> stack (seats short_stack_started ! 1)
            = amount_or_zero (checking_or_calling_amount (toy heads_up_script)
                                (pokerkit_state (hand_of short_stack_started)))
      \<and> (\<exists>row. action_log_internal h'
                   = action_log_internal (hand_of short_stack_started) @ [row]
                 \<and> row_seat_id row = 1 \<and> row_action row = ALL_IN))
   \<and> (\<exists>u t' h'.
      apply_player_action (toy heads_up_script) heads_up_started
        (hand_of heads_up_started) 1 RAISE (Some 10) None = Returned u (t', h')
      \<and> Some 10 = max_completion_betting_or_raising_to_amount (toy heads_up_script)
                     (pokerkit_state (hand_of heads_up_started))
      \<and> (\<exists>row. action_log_internal h'
                   = action_log_internal (hand_of heads_up_started) @ [row]
                 \<and> row_seat_id row = 1 \<and> row_action row = ALL_IN))"
proof (intro conjI)
  obtain u t' h' where r:
    "apply_player_action (toy heads_up_script) short_stack_started
       (hand_of short_stack_started) 1 CALL None None = Returned u (t', h')"
    using short_call_accepted by (auto split: result.splits)
  show "\<exists>u t' h'.
      apply_player_action (toy heads_up_script) short_stack_started
        (hand_of short_stack_started) 1 CALL None None = Returned u (t', h')
      \<and> 0 < amount_or_zero (checking_or_calling_amount (toy heads_up_script)
                              (pokerkit_state (hand_of short_stack_started)))
      \<and> stack (seats short_stack_started ! 1)
            = amount_or_zero (checking_or_calling_amount (toy heads_up_script)
                                (pokerkit_state (hand_of short_stack_started)))
      \<and> (\<exists>row. action_log_internal h'
                   = action_log_internal (hand_of short_stack_started) @ [row]
                 \<and> row_seat_id row = 1 \<and> row_action row = ALL_IN)"
    using action_log_normalization [OF r] short_call_amount r by blast
next
  obtain u t' h' where r:
    "apply_player_action (toy heads_up_script) heads_up_started
       (hand_of heads_up_started) 1 RAISE (Some 10) None = Returned u (t', h')"
    using max_raise_accepted by (auto split: result.splits)
  show "\<exists>u t' h'.
      apply_player_action (toy heads_up_script) heads_up_started
        (hand_of heads_up_started) 1 RAISE (Some 10) None = Returned u (t', h')
      \<and> Some 10 = max_completion_betting_or_raising_to_amount (toy heads_up_script)
                     (pokerkit_state (hand_of heads_up_started))
      \<and> (\<exists>row. action_log_internal h'
                   = action_log_internal (hand_of heads_up_started) @ [row]
                 \<and> row_seat_id row = 1 \<and> row_action row = ALL_IN)"
    using action_log_normalization [OF r] max_raise_amount r by blast
qed

subsection \<open>Submitting an action\<close>

lemma log_player_action_not_Raised: "log_player_action P t h s a amt d \<noteq> Raised c th"
  by (auto simp: log_player_action_def Let_def split: sum.splits prod.splits)

lemma apply_player_action_Raised:
  "apply_player_action P t h s a amt d = Raised c th \<Longrightarrow> th = (t, h)"
  using log_player_action_not_Raised[of P t _ s]
  by (auto simp: apply_player_action_def Let_def
           split: sum.splits if_splits option.splits)

lemma store_hand_same: "current_hand t = Some h \<Longrightarrow> store_hand (t, h) = t"
  by (simp add: store_hand_def)

lemma submit_action_cached:
  "current_hand t = Some h \<Longrightarrow> idempotency_cache h key = Some r
     \<Longrightarrow> submit_action P t v a sq key amt = Returned r t"
  by (simp add: submit_action_def)

lemma submit_action_Raised:
  assumes "submit_action P t v a sq key amt = Raised c t'"
  shows "t' = t \<and> (\<forall>h. current_hand t = Some h \<longrightarrow> idempotency_cache h key = None)"
  using assms
  by (auto simp: submit_action_def Let_def
           split: option.splits if_splits sum.splits result.splits prod.splits)

lemma submit_action_Returned:
  assumes "submit_action P t v a sq key amt = Returned r t'"
  shows "\<exists>h. current_hand t = Some h
           \<and> (idempotency_cache h key = Some r \<and> t' = t
              \<or> idempotency_cache h key = None \<and> \<not> accepted r \<and> t' = t
              \<or> idempotency_cache h key = None \<and> accepted r
                  \<and> (\<exists>h'. current_hand t' = Some h' \<and> idempotency_cache h' key = Some r))"
proof (cases "current_hand t")
  case None
  then show ?thesis using assms by (simp add: submit_action_def)
next
  case (Some h)
  show ?thesis
  proof (cases "idempotency_cache h key")
    case (Some cached)
    then show ?thesis using assms \<open>current_hand t = Some h\<close> by (simp add: submit_action_def)
  next
    case None
    show ?thesis
      using assms \<open>current_hand t = Some h\<close> None
      by (auto simp: submit_action_def Let_def store_hand_def
               split: option.splits if_splits sum.splits result.splits prod.splits
               dest!: apply_player_action_Raised)
  qed
qed

subsection \<open>Pot awards and the export of a hand history\<close>

lemma push_winners_spec:
  "push_winners p2s i xs rows = Inr (ws, rows')
     \<Longrightarrow> ws = map (\<lambda>(j, a). (p2s ! j, a))
                 (filter (\<lambda>(j, a). 0 < a) (zip [i..<i + length xs] xs))"
proof (induction xs arbitrary: i rows ws rows')
  case Nil
  then show ?case by simp
next
  case (Cons a xs)
  have "[i..<Suc (i + length xs)] = i # [Suc i..<Suc (i + length xs)]"
    by (rule upt_conv_Cons) simp
  then have z: "zip [i..<i + length (a # xs)] (a # xs) = (i, a) # zip [Suc i..<Suc i + length xs] xs"
    by (simp del: upt_Suc)
  show ?case
  proof (cases "a \<le> 0")
    case True
    then show ?thesis using Cons.prems Cons.IH[of "Suc i" rows ws rows'] z by simp
  next
    case False
    then obtain ws1 where
      r: "push_winners p2s (Suc i) xs
            (rows(p2s ! i \<mapsto>
               (case rows (p2s ! i) of
                  None \<Rightarrow> \<lparr>hole_cards = [None, None], amount_won = 0\<rparr>
                | Some r \<Rightarrow> r)
               \<lparr>amount_won :=
                  amount_won (case rows (p2s ! i) of
                                None \<Rightarrow> \<lparr>hole_cards = [None, None], amount_won = 0\<rparr>
                              | Some r \<Rightarrow> r) + a\<rparr>)) = Inr (ws1, rows')"
      and w: "ws = (p2s ! i, a) # ws1"
      using Cons.prems by (auto simp: Let_def split: if_splits sum.splits)
    show ?thesis using Cons.IH[OF r] w z False by simp
  qed
qed

lemma pot_award_payload_sum:
  "sum_list (map snd (winners (pot_award_payload i ws el))) = amount (pot_award_payload i ws el)"
  by (simp add: pot_award_payload_def Let_def)

lemma pot_award_payload_odd:
  "odd_chip_award (pot_award_payload i ws el)
     = (if 1 < length ws \<and> 0 < sum_list (map snd ws) mod int (length ws)
        then Some (fst (hd ws), sum_list (map snd ws) mod int (length ws)) else None)"
proof -
  have "sum_list (map snd ws) - sum_list (map snd ws) div int (length ws) * int (length ws)
          = sum_list (map snd ws) mod int (length ws)"
    by (simp add: minus_div_mult_eq_mod)
  then show ?thesis
    by (cases ws) (simp_all add: pot_award_payload_def Let_def hd_map)
qed

text \<open>
  C7 (as amended). Every pot award that the push-chips branch of \<open>_advance_locked\<close> records
  lists the players with a positive amount in player-index order; the winner amounts alone
  sum to the recorded amount of the pot; and the odd chip is recorded exactly when there is
  more than one winner and the amount does not divide evenly, for the first listed winner
  (the winner with the lowest player index, player indices starting at the seat after the
  button) and with the remainder of that division.
\<close>

theorem pot_award_recorded:
  assumes "advance_push_chips P t h = Inr (t', h')"
  shows "\<exists>p. pot_awards h' = pot_awards h @ [p]
           \<and> winners p
               = map (\<lambda>(j, a). (player_index_to_seat h ! j, a))
                   (filter (\<lambda>(j, a). 0 < a)
                      (zip [0..<length (op_amounts (fst (perform P (pokerkit_state h) PushChips)))]
                           (op_amounts (fst (perform P (pokerkit_state h) PushChips)))))
           \<and> sum_list (map snd (winners p)) = amount p
           \<and> odd_chip_award p
               = (if 1 < length (winners p) \<and> 0 < amount p mod int (length (winners p))
                  then Some (fst (hd (winners p)), amount p mod int (length (winners p)))
                  else None)"
proof -
  obtain op st where ps: "perform P (pokerkit_state h) PushChips = (op, st)"
    by (cases "perform P (pokerkit_state h) PushChips")
  from assms ps obtain ws rows el where
    pw: "push_winners (player_index_to_seat h) 0 (op_amounts op) (showdown_rows_by_seat h)
           = Inr (ws, rows)"
    and pa: "pot_awards h' = pot_awards h @ [pot_award_payload (op_pot_index op) ws el]"
    by (auto simp: advance_push_chips_def Let_def emit_event_def
             split: if_splits sum.splits prod.splits)
  let ?p = "pot_award_payload (op_pot_index op) ws el"
  have w: "winners ?p = ws" by (simp add: pot_award_payload_def Let_def)
  have a: "amount ?p = sum_list (map snd ws)" by (simp add: pot_award_payload_def Let_def)
  show ?thesis
    using pa push_winners_spec[OF pw] pot_award_payload_odd[of "op_pot_index op" ws el] w a ps
    by (intro exI[of _ ?p]) simp
qed

lemma export_viewer_with_showdown:
  assumes "completed_hands t hid = Some hh" and "showdown hh \<noteq> None"
  shows "export_hand_history t hid ''viewer'' = Inr hh"
proof -
  have "map (\<lambda>(seat_key, cards). cards)
          (zip [0..<length (hole_cards_by_seat hh)] (hole_cards_by_seat hh))
        = hole_cards_by_seat hh"
    by (simp add: case_prod_unfold map_snd_zip)
  moreover obtain sd where "showdown hh = Some sd" using assms(2) by auto
  ultimately show ?thesis using assms(1) by (simp add: export_hand_history_def case_prod_unfold)
qed

subsection \<open>The three-seat hand, evaluated\<close>

lemmas engine_defs = string_of_nat.simps create_table_def active_seats_of_table_def next_active_loop.simps next_active_after_def emit_event_def sync_stacks.simps sync_table_stacks_from_state_def seat_of_player_def actor_seat_def street_from_state_def street_for_board_count_def normalize_hole_cards_def refresh_outcome_def invariant_payload_def commit_chips_def next_card_def next_cards_def post_single_blind_locked_def post_blinds_locked.simps deal_single_hole_card_locked_def deal_hole_cards_locked.simps advance_post_ante_def advance_collect_bets_def advance_burn_card_def advance_deal_board_def advance_show_or_muck_def push_winners.simps pot_award_payload_def seats_of_players.simps advance_push_chips_def advance_pull_chips_def player_name_of_def showdown_rows.simps build_showdown_payload_def complete_hand_locked_def advance_finish_def advance_step_def advance_loop.simps advance_locked_def log_player_action_def amount_or_zero_def actor_bet_def apply_player_action_def allowed_none_def allowed_actions_for_seat_def allowed_actions_for_viewer_def view_players.simps view_pots.simps view_action_log_def build_view_state_def order_seats.simps invert_seats.simps seat_hand_def starting_stacks_of.simps store_hand_def new_hand_def start_hand_locked_def start_new_hand_def get_view_state_def get_server_action_seq_def submit_action_def advance_def after_bot_advance_def run_bots_step_def run_bots_loop.simps run_bots_until_human_turn_def restart_session_def export_hand_history_def py_get_def py_clamp_def py_slice_def strict_fold_def strict_check_or_call_def strict_complete_bet_or_raise_to_def replay_forced_step_def replay_advance.simps deck_index_after_advance_def replay_row_action_def replay_rows.simps replay_finish.simps replay_post_blinds.simps replay_deal_holes.simps replay_starting_stacks.simps replay_player_stacks.simps replay_other_stacks.simps replay_state_def event_seq_monotonic.simps replay_from_history_def replay_hand_history_def toy_move_def toy_call_amount_def toy_can_def toy_info_def toy_perform_def toy_actor_def toy_deck_def toy_def showcase_config_def showcase_script_def state_after_def showcase_created_def showcase_started_def showcase_human_turn_def showcase_called_def showcase_finished_def short_stack_config_def heads_up_script_def short_stack_started_def hand_of_def heads_up_config_def heads_up_started_def

lemma showcase_call_accepted:
  "(case submit_action (toy showcase_script) showcase_human_turn ''human'' CALL 2 ''key-1'' None of
      Returned r t \<Rightarrow> accepted r \<and> get_server_action_seq t = 2
    | Raised c t \<Rightarrow> False
    | Fatal e \<Rightarrow> False)"
  by (simp add: engine_defs Let_def eval_nat_numeral split_beta)

lemma showcase_hand_completed:
  "(case run_bots_until_human_turn (toy showcase_script) showcase_called of
      Returned r t \<Rightarrow> completed_hands t 1 = Some showcase_history \<and> current_hand t = None
    | Raised c t \<Rightarrow> False
    | Fatal e \<Rightarrow> False)"
  by (simp add: engine_defs showcase_history_def Let_def eval_nat_numeral split_beta)

end
